theory Spec2Isabelle
  imports Complex_Main "HOL-Library.Sublist"
begin

section \<open>The FTMap hotspot HCA scripts\<close>

text \<open>
  The repository holds five PyMOL scripts: \<^verbatim>\<open>hca_all_analysis.py\<close> (four clustering jobs in
  one run) and \<^verbatim>\<open>hca_HO.py\<close>, \<^verbatim>\<open>hca_jaccard.py\<close>, \<^verbatim>\<open>hca_overlap.py\<close>,
  \<^verbatim>\<open>hca_Euclidian.py\<close> (one job each). Each script is module-level code that calls external
  collaborators (glob, PyMOL, XDrugPy, matplotlib, the wall clock). A script is embedded as a
  program over an explicit state; each collaborator call is logged as an event, and what the
  collaborator answers (or that it raises) is read from a \<open>world\<close> value.
\<close>

subsection \<open>Python values\<close>

text \<open>\<^verbatim>\<open>str(n)\<close> of a Python int: decimal digits, a leading minus sign when negative.\<close>

function str_nat :: "nat \<Rightarrow> string" where
  "str_nat n = (if n < 10 then [''0123456789'' ! n]
                else str_nat (n div 10) @ [''0123456789'' ! (n mod 10)])"
  by pat_completeness auto
termination
  by (relation "measure id") auto

declare str_nat.simps [simp del]

definition str_int :: "int \<Rightarrow> string" where
  "str_int i = (if i < 0 then ''-'' @ str_nat (nat (- i)) else str_nat (nat i))"

text \<open>\<^verbatim>\<open>int(x)\<close> of a Python float truncates towards zero.\<close>

definition py_int :: "real \<Rightarrow> int" where
  "py_int x = (if 0 \<le> x then \<lfloor>x\<rfloor> else \<lceil>x\<rceil>)"

text \<open>\<^verbatim>\<open>s.ljust(width, fill)\<close>: pad on the right up to \<open>width\<close>; a longer string is unchanged.\<close>

definition ljust :: "string \<Rightarrow> nat \<Rightarrow> char \<Rightarrow> string" where
  "ljust s width fill = s @ replicate (width - length s) fill"

text \<open>The line feed, and the two non-ASCII signs of the scripts' messages (UTF-8 bytes).\<close>

definition nl :: string where
  "nl = [CHR 0x0A]"

definition check_mark :: string where
  "check_mark = [CHR 0xE2, CHR 0x9C, CHR 0x94]"

definition warning_sign :: string where
  "warning_sign = [CHR 0xE2, CHR 0x9A, CHR 0xA0, CHR 0xEF, CHR 0xB8, CHR 0x8F]"

subsection \<open>Errors, events, the world and the state\<close>

text \<open>
  Every \<^verbatim>\<open>raise\<close> of the scripts is a \<^verbatim>\<open>RuntimeError\<close> with a message. \<open>IndexError\<close> is
  \<^verbatim>\<open>objs[0]\<close> on an empty list, \<open>ZeroDivisionError\<close> a division by a zero total, and
  \<open>CollaboratorError\<close> an exception raised inside a collaborator call, with its message.
\<close>

datatype py_error =
    RuntimeError string
  | IndexError
  | ZeroDivisionError
  | CollaboratorError string

text \<open>The keyword arguments of the two clustering calls; \<open>None\<close> is an argument not passed.\<close>

record pairwise_args =
  pw_selection :: string
  pw_function :: string
  pw_align :: bool
  pw_radius :: real
  pw_color_threshold :: "int option"
  pw_hide_threshold :: "bool option"
  pw_annotate :: bool

record euclidean_args =
  eu_selection :: string
  eu_properties :: "string list"
  eu_normalize :: bool
  eu_linkage_method :: string
  eu_hide_threshold :: "bool option"
  eu_annotate :: bool

text \<open>
  The progress line written to stdout. The floats of the line are kept as numbers (their
  \<^verbatim>\<open>:6.1f\<close> rendering is not modelled); \<open>pl_elapsed\<close> is \<open>None\<close> in the scripts whose line
  shows the ETA only.
\<close>

record progress_line =
  pl_label :: string
  pl_bar :: string
  pl_current :: int
  pl_total :: int
  pl_elapsed :: "real option"
  pl_eta :: real

text \<open>
  \<open>Print s\<close> is \<^verbatim>\<open>print(s)\<close>; \<open>PrintTimed p t q\<close> is \<^verbatim>\<open>print(f"p{t:.1f}q")\<close> with the float \<open>t\<close>
  kept as a number. \<open>GetObjectList sel objs\<close> logs a call of \<^verbatim>\<open>pm.get_object_list\<close> with
  the list it returned.
\<close>

datatype event =
    UndoDisable
  | Print string
  | PrintTimed string real string
  | LoadFtmap string
  | StdoutWrite progress_line
  | StdoutFlush
  | GetObjectList "string option" "string list"
  | CountAtoms string
  | Align string string
  | PlotPairwiseHca pairwise_args
  | PlotEuclideanHca euclidean_args
  | Title string
  | Savefig string nat string
  | Close

text \<open>
  The world: what the environment answers. A collaborator that can raise answers
  \<open>Some message\<close> when it does. \<open>env_clock n\<close> is what the \<open>n\<close>-th call of \<^verbatim>\<open>time.time()\<close>
  returns (counted from 0).
\<close>

record world =
  env_has_undo_disable :: bool
  env_expanduser :: "string \<Rightarrow> string"
  env_expandvars :: "string \<Rightarrow> string"
  env_glob :: "string \<Rightarrow> string list"
  env_load_ftmap :: "string \<Rightarrow> string + string list"
  env_selects :: "string \<Rightarrow> string \<Rightarrow> bool"
  env_count_atoms :: "string \<Rightarrow> nat"
  env_align :: "string \<Rightarrow> string \<Rightarrow> string option"
  env_plot_pairwise_hca :: "pairwise_args \<Rightarrow> string option"
  env_plot_euclidean_hca :: "euclidean_args \<Rightarrow> string option"
  env_savefig :: "string \<Rightarrow> string option"
  env_clock :: "nat \<Rightarrow> real"

text \<open>
  The state: the log of events so far, the objects in the PyMOL session, and the number of
  clock readings taken.
\<close>

record state =
  trace :: "event list"
  repo :: "string list"
  reads :: nat

definition init_state :: state where
  "init_state = \<lparr>trace = [], repo = [], reads = 0\<rparr>"

text \<open>The user parameters at the head of the scripts.\<close>

record config =
  BASE_PATH :: string
  S0_CUTOFF :: int
  ALIGN_STRUCTURES :: bool
  OUTPUT_PREFIX :: string
  OUTPUT :: string

subsection \<open>Programs that may raise\<close>

type_synonym 'a prog = "state \<Rightarrow> (py_error + 'a) \<times> state"

definition pret :: "'a \<Rightarrow> 'a prog" where
  "pret a s = (Inr a, s)"

definition praise :: "py_error \<Rightarrow> 'a prog" where
  "praise e s = (Inl e, s)"

definition pbind :: "'a prog \<Rightarrow> ('a \<Rightarrow> 'b prog) \<Rightarrow> 'b prog" where
  "pbind m f s = (case m s of (Inl e, s') \<Rightarrow> (Inl e, s') | (Inr a, s') \<Rightarrow> f a s')"

text \<open>A block of statements: run in order, stop at the first that raises.\<close>

fun block :: "unit prog list \<Rightarrow> unit prog" where
  "block [] = pret ()"
| "block (m # ms) = pbind m (\<lambda>_. block ms)"

text \<open>\<^verbatim>\<open>for x in xs: body\<close>.\<close>

fun for_each :: "'a list \<Rightarrow> ('a \<Rightarrow> unit prog) \<Rightarrow> unit prog" where
  "for_each [] body = pret ()"
| "for_each (x # xs) body = pbind (body x) (\<lambda>_. for_each xs body)"

text \<open>\<^verbatim>\<open>try: m except <class> as e: handler(e)\<close>, for the exceptions the handler's class catches.\<close>

definition try_except :: "unit prog \<Rightarrow> (py_error \<Rightarrow> unit prog) \<Rightarrow> unit prog" where
  "try_except m handler s = (case m s of (Inl e, s') \<Rightarrow> handler e s' | (Inr a, s') \<Rightarrow> (Inr a, s'))"

definition emit :: "event \<Rightarrow> unit prog" where
  "emit e s = (Inr (), s\<lparr>trace := trace s @ [e]\<rparr>)"

text \<open>\<^verbatim>\<open>str(e)\<close> of a caught exception.\<close>

fun str_error :: "py_error \<Rightarrow> string" where
  "str_error (RuntimeError m) = m"
| "str_error (CollaboratorError m) = m"
| "str_error IndexError = ''list index out of range''"
| "str_error ZeroDivisionError = ''division by zero''"

subsection \<open>The collaborators\<close>

definition time_time :: "world \<Rightarrow> real prog" where
  "time_time w s = (Inr (env_clock w (reads s)), s\<lparr>reads := reads s + 1\<rparr>)"

text \<open>\<^verbatim>\<open>if hasattr(pm, "undo_disable"): pm.undo_disable()\<close>\<close>

definition undo_disable :: "world \<Rightarrow> unit prog" where
  "undo_disable w = (if env_has_undo_disable w then emit UndoDisable else pret ())"

text \<open>\<^verbatim>\<open>glob(expandvars(expanduser(BASE_PATH)))\<close>\<close>

definition glob_files :: "config \<Rightarrow> world \<Rightarrow> string list" where
  "glob_files c w = env_glob w (env_expandvars w (env_expanduser w (BASE_PATH c)))"

text \<open>\<^verbatim>\<open>load_ftmap(file)\<close>: the objects it creates join the session, or it raises.\<close>

definition load_ftmap :: "world \<Rightarrow> string \<Rightarrow> unit prog" where
  "load_ftmap w file s =
     (let s1 = s\<lparr>trace := trace s @ [LoadFtmap file]\<rparr>
      in case env_load_ftmap w file of
           Inl msg \<Rightarrow> (Inl (CollaboratorError msg), s1)
         | Inr objs \<Rightarrow> (Inr (), s1\<lparr>repo := repo s1 @ objs\<rparr>))"

text \<open>
  \<^verbatim>\<open>pm.get_object_list(selection)\<close>: the session's objects the selection matches, in session
  order; all of them without a selection. An unmatched selection gives the empty list.
\<close>

definition get_object_list :: "world \<Rightarrow> string option \<Rightarrow> string list prog" where
  "get_object_list w sel s =
     (let objs = (case sel of None \<Rightarrow> repo s | Some q \<Rightarrow> filter (env_selects w q) (repo s))
      in (Inr objs, s\<lparr>trace := trace s @ [GetObjectList sel objs]\<rparr>))"

definition count_atoms :: "world \<Rightarrow> string \<Rightarrow> nat prog" where
  "count_atoms w sel s = (Inr (env_count_atoms w sel), s\<lparr>trace := trace s @ [CountAtoms sel]\<rparr>)"

definition pm_align :: "world \<Rightarrow> string \<Rightarrow> string \<Rightarrow> unit prog" where
  "pm_align w obj ref s =
     (let s1 = s\<lparr>trace := trace s @ [Align obj ref]\<rparr>
      in case env_align w obj ref of
           Some msg \<Rightarrow> (Inl (CollaboratorError msg), s1)
         | None \<Rightarrow> (Inr (), s1))"

definition plot_pairwise_hca :: "world \<Rightarrow> pairwise_args \<Rightarrow> unit prog" where
  "plot_pairwise_hca w args s =
     (let s1 = s\<lparr>trace := trace s @ [PlotPairwiseHca args]\<rparr>
      in case env_plot_pairwise_hca w args of
           Some msg \<Rightarrow> (Inl (CollaboratorError msg), s1)
         | None \<Rightarrow> (Inr (), s1))"

definition plot_euclidean_hca :: "world \<Rightarrow> euclidean_args \<Rightarrow> unit prog" where
  "plot_euclidean_hca w args s =
     (let s1 = s\<lparr>trace := trace s @ [PlotEuclideanHca args]\<rparr>
      in case env_plot_euclidean_hca w args of
           Some msg \<Rightarrow> (Inl (CollaboratorError msg), s1)
         | None \<Rightarrow> (Inr (), s1))"

text \<open>\<^verbatim>\<open>plt.savefig(path, dpi=300, bbox_inches="tight")\<close>\<close>

definition savefig :: "world \<Rightarrow> string \<Rightarrow> unit prog" where
  "savefig w path s =
     (let s1 = s\<lparr>trace := trace s @ [Savefig path 300 ''tight'']\<rparr>
      in case env_savefig w path of
           Some msg \<Rightarrow> (Inl (CollaboratorError msg), s1)
         | None \<Rightarrow> (Inr (), s1))"

subsection \<open>The progress bar\<close>

text \<open>
  \<^verbatim>\<open>progress_bar(current, total, start_time, prefix)\<close> of \<^verbatim>\<open>hca_all_analysis.py\<close>. The
  division \<^verbatim>\<open>bar_len * current / total\<close> raises \<^verbatim>\<open>ZeroDivisionError\<close> when \<open>total\<close> is 0,
  after \<open>eta\<close> has been computed and before anything is written.
\<close>

definition progress_bar :: "world \<Rightarrow> int \<Rightarrow> int \<Rightarrow> real \<Rightarrow> string \<Rightarrow> unit prog" where
  "progress_bar w current tot start_time pfx =
     pbind (time_time w) (\<lambda>now.
       let elapsed = now - start_time;
           avg = (if current > 0 then elapsed / real_of_int current else 0);
           eta = avg * real_of_int (tot - current);
           bar_len = 30
       in if tot = 0 then praise ZeroDivisionError
          else
            let filled = py_int (real_of_int (bar_len * current) / real_of_int tot);
                bar = replicate (nat filled) CHR ''='' @ replicate (nat (bar_len - filled)) CHR ''-''
            in block
                 [emit (StdoutWrite \<lparr>pl_label = pfx, pl_bar = bar, pl_current = current,
                                      pl_total = tot, pl_elapsed = Some elapsed, pl_eta = eta\<rparr>),
                  emit StdoutFlush])"

text \<open>
  \<^verbatim>\<open>progress_bar(i, total, start, label)\<close> of the four single-job scripts (the same text in
  \<^verbatim>\<open>hca_HO.py\<close>, \<^verbatim>\<open>hca_jaccard.py\<close>, \<^verbatim>\<open>hca_overlap.py\<close> and \<^verbatim>\<open>hca_Euclidian.py\<close>): the guard is
  the truth value of \<open>i\<close>, and the line shows the ETA only.
\<close>

definition progress_bar_single :: "world \<Rightarrow> int \<Rightarrow> int \<Rightarrow> real \<Rightarrow> string \<Rightarrow> unit prog" where
  "progress_bar_single w i tot start label =
     pbind (time_time w) (\<lambda>now.
       let elapsed = now - start;
           avg = (if i \<noteq> 0 then elapsed / real_of_int i else 0);
           eta = avg * real_of_int (tot - i)
       in if tot = 0 then praise ZeroDivisionError
          else
            let bar = replicate (nat (py_int (real_of_int (30 * i) / real_of_int tot))) CHR ''='';
                bar = ljust bar 30 CHR ''-''
            in block
                 [emit (StdoutWrite \<lparr>pl_label = label, pl_bar = bar, pl_current = i,
                                      pl_total = tot, pl_elapsed = None, pl_eta = eta\<rparr>),
                  emit StdoutFlush])"

section \<open>The scripts\<close>

text \<open>The two selection strings, built from the cutoff by an f-string.\<close>

definition HOTSPOT_SEL :: "config \<Rightarrow> string" where
  "HOTSPOT_SEL c = ''((*.B* *.D*) AND p.S0>'' @ str_int (S0_CUTOFF c) @ '')''"

definition EUCLIDEAN_SEL :: "config \<Rightarrow> string" where
  "EUCLIDEAN_SEL c = ''*.K15_* AND p.S0>'' @ str_int (S0_CUTOFF c)"

subsection \<open>\<^verbatim>\<open>hca_all_analysis.py\<close>\<close>

text \<open>Lines 71 to 84: the file check and the loading loop.\<close>

definition all_load_structures :: "config \<Rightarrow> world \<Rightarrow> unit prog" where
  "all_load_structures c w =
     (let files = glob_files c w;
          n_files = length files
      in if n_files = 0
         then praise (RuntimeError ''No FTMap PDB files found. Check BASE_PATH.'')
         else block
           [emit (Print (''Found '' @ str_nat n_files @ '' FTMap structures'' @ nl)),
            pbind (time_time w) (\<lambda>load_start.
              for_each (enumerate 1 files) (\<lambda>(i, file).
                block [load_ftmap w file,
                       progress_bar w (int i) (int n_files) load_start ''Loading FTMap files''])),
            emit (Print (nl @ check_mark @ '' FTMap structures loaded'' @ nl))])"

text \<open>
  Lines 89 to 103: the global alignment. The bare \<^verbatim>\<open>except: pass\<close> swallows whatever the
  alignment call raises. \<^verbatim>\<open>objs[0]\<close> raises \<^verbatim>\<open>IndexError\<close> on an empty session.
\<close>

definition all_global_alignment :: "config \<Rightarrow> world \<Rightarrow> unit prog" where
  "all_global_alignment c w =
     (if ALIGN_STRUCTURES c
      then block
        [emit (Print ''Aligning structures...''),
         pbind (time_time w) (\<lambda>align_start.
           pbind (get_object_list w None) (\<lambda>objs.
             case objs of
               [] \<Rightarrow> praise IndexError
             | ref # rest \<Rightarrow>
                 for_each (enumerate 1 rest) (\<lambda>(i, obj).
                   block [try_except (pm_align w obj ref) (\<lambda>e. pret ()),
                          progress_bar w (int i) (int (length objs) - 1) align_start
                            ''Aligning'']))),
         emit (Print (nl @ check_mark @ '' Alignment completed'' @ nl))]
      else pret ())"

text \<open>Lines 108 to 118: the hotspot selection and its validation.\<close>

definition all_hotspot_selection :: "config \<Rightarrow> world \<Rightarrow> unit prog" where
  "all_hotspot_selection c w =
     block
       [emit (Print (''Using hotspot selection:'' @ nl @ ''  '' @ HOTSPOT_SEL c @ nl)),
        pbind (get_object_list w (Some (HOTSPOT_SEL c))) (\<lambda>hotspots.
          if length hotspots < 2
          then praise (RuntimeError
                 (''Only '' @ str_nat (length hotspots) @ '' hotspots found with S0 > ''
                  @ str_int (S0_CUTOFF c) @ ''. '' @ ''At least two are required for HCA.''))
          else emit (Print (check_mark @ '' '' @ str_nat (length hotspots)
                            @ '' hotspots selected for analysis'' @ nl)))]"

text \<open>Lines 123 to 205: the four clustering jobs, each followed by title, save and close.\<close>

definition all_job_HO :: "config \<Rightarrow> world \<Rightarrow> unit prog" where
  "all_job_HO c w =
     block
       [emit (Print ''Running HCA: Hotspot Overlap (HO)...''),
        pbind (time_time w) (\<lambda>start.
          block
            [plot_pairwise_hca w
               \<lparr>pw_selection = HOTSPOT_SEL c, pw_function = ''ho'', pw_align = False,
                pw_radius = 1.5, pw_color_threshold = Some 0, pw_hide_threshold = Some False,
                pw_annotate = True\<rparr>,
             emit (Title ''Hotspot Overlap (HO) | S0 > 20''),
             savefig w (OUTPUT_PREFIX c @ ''_01_HO_dendrogram.png''),
             emit Close,
             pbind (time_time w) (\<lambda>t.
               emit (PrintTimed (check_mark @ '' HO completed in '') (t - start) (''s'' @ nl)))])]"

definition all_job_Jaccard :: "config \<Rightarrow> world \<Rightarrow> unit prog" where
  "all_job_Jaccard c w =
     block
       [emit (Print ''Running HCA: Residue Jaccard similarity...''),
        pbind (time_time w) (\<lambda>start.
          block
            [plot_pairwise_hca w
               \<lparr>pw_selection = HOTSPOT_SEL c, pw_function = ''jaccard'', pw_align = True,
                pw_radius = 5.0, pw_color_threshold = Some 0, pw_hide_threshold = Some False,
                pw_annotate = True\<rparr>,
             emit (Title ''Residue Jaccard Similarity | S0 > 20''),
             savefig w (OUTPUT_PREFIX c @ ''_02_Jaccard_dendrogram.png''),
             emit Close,
             pbind (time_time w) (\<lambda>t.
               emit (PrintTimed (check_mark @ '' Jaccard completed in '') (t - start)
                       (''s'' @ nl)))])]"

definition all_job_Overlap :: "config \<Rightarrow> world \<Rightarrow> unit prog" where
  "all_job_Overlap c w =
     block
       [emit (Print ''Running HCA: Residue Overlap similarity...''),
        pbind (time_time w) (\<lambda>start.
          block
            [plot_pairwise_hca w
               \<lparr>pw_selection = HOTSPOT_SEL c, pw_function = ''overlap'', pw_align = True,
                pw_radius = 5.0, pw_color_threshold = Some 0, pw_hide_threshold = Some False,
                pw_annotate = True\<rparr>,
             emit (Title ''Residue Overlap Similarity | S0 > 20''),
             savefig w (OUTPUT_PREFIX c @ ''_03_Overlap_dendrogram.png''),
             emit Close,
             pbind (time_time w) (\<lambda>t.
               emit (PrintTimed (check_mark @ '' Overlap completed in '') (t - start)
                       (''s'' @ nl)))])]"

definition all_job_Euclidean :: "config \<Rightarrow> world \<Rightarrow> unit prog" where
  "all_job_Euclidean c w =
     block
       [emit (Print ''Running multivariate Euclidean HCA (S0 + CD + MD)...''),
        pbind (time_time w) (\<lambda>start.
          block
            [plot_euclidean_hca w
               \<lparr>eu_selection = EUCLIDEAN_SEL c, eu_properties = [''S0'', ''CD'', ''MD''],
                eu_normalize = True, eu_linkage_method = ''ward'',
                eu_hide_threshold = Some False, eu_annotate = True\<rparr>,
             emit (Title ''Euclidean HCA (S0 + CD + MD) | S0 > 20''),
             savefig w (OUTPUT_PREFIX c @ ''_04_Euclidean_HCA.png''),
             emit Close,
             pbind (time_time w) (\<lambda>t.
               emit (PrintTimed (check_mark @ '' Euclidean HCA completed in '') (t - start)
                       (''s'' @ nl)))])]"

text \<open>Lines 210 to 217: the final report.\<close>

definition all_final_report :: "config \<Rightarrow> world \<Rightarrow> real \<Rightarrow> unit prog" where
  "all_final_report c w global_start =
     pbind (time_time w) (\<lambda>t.
       let total_time = t - global_start
       in block
            [emit (Print ''=== PIPELINE COMPLETED SUCCESSFULLY ===''),
             emit (PrintTimed ''Total execution time: '' total_time '' seconds''),
             emit (Print ''Generated files:''),
             emit (Print (''  '' @ OUTPUT_PREFIX c @ ''_01_HO_dendrogram.png'')),
             emit (Print (''  '' @ OUTPUT_PREFIX c @ ''_02_Jaccard_dendrogram.png'')),
             emit (Print (''  '' @ OUTPUT_PREFIX c @ ''_03_Overlap_dendrogram.png'')),
             emit (Print (''  '' @ OUTPUT_PREFIX c @ ''_04_Euclidean_HCA.png'' @ nl))])"

text \<open>The stages from the selection on, and the whole script.\<close>

definition all_analysis :: "config \<Rightarrow> world \<Rightarrow> real \<Rightarrow> unit prog" where
  "all_analysis c w global_start =
     block [all_hotspot_selection c w,
            all_job_HO c w, all_job_Jaccard c w, all_job_Overlap c w, all_job_Euclidean c w,
            all_final_report c w global_start]"

definition hca_all_analysis :: "config \<Rightarrow> world \<Rightarrow> unit prog" where
  "hca_all_analysis c w =
     block
       [undo_disable w,
        pbind (time_time w) (\<lambda>global_start.
          block
            [emit (Print (nl @ ''=== HOTSPOT ANALYSIS PIPELINE STARTED ==='' @ nl)),
             all_load_structures c w,
             all_global_alignment c w,
             all_analysis c w global_start])]"

subsection \<open>The single-job scripts\<close>

text \<open>
  The file check and the loading loop have the same shape in the four single-job scripts;
  they differ in the error message, the progress label and the completion message.
\<close>

definition single_load_structures ::
  "config \<Rightarrow> world \<Rightarrow> string \<Rightarrow> string \<Rightarrow> string \<Rightarrow> unit prog" where
  "single_load_structures c w no_files_msg label loaded_msg =
     (let files = glob_files c w
      in if files = []
         then praise (RuntimeError no_files_msg)
         else block
           [pbind (time_time w) (\<lambda>start.
              for_each (enumerate 1 files) (\<lambda>(i, f).
                block [load_ftmap w f,
                       progress_bar_single w (int i) (int (length files)) start label])),
            emit (Print loaded_msg)])"

text \<open>
  \<^verbatim>\<open>hca_HO.py\<close>, lines 76 to 79: the objects with at least one protein atom, by one
  \<^verbatim>\<open>pm.count_atoms\<close> call per object.
\<close>

fun protein_objects :: "world \<Rightarrow> string list \<Rightarrow> string list prog" where
  "protein_objects w [] = pret []"
| "protein_objects w (obj # objs) =
     pbind (count_atoms w (obj @ '' and polymer.protein'')) (\<lambda>n.
       pbind (protein_objects w objs) (\<lambda>ps.
         pret (if n > 0 then obj # ps else ps)))"

text \<open>
  \<^verbatim>\<open>hca_HO.py\<close>, lines 74 to 94: at least two protein structures are required; a failed
  alignment is caught (\<^verbatim>\<open>except Exception as e\<close>) and printed as a warning.
\<close>

definition HO_align_proteins :: "config \<Rightarrow> world \<Rightarrow> unit prog" where
  "HO_align_proteins c w =
     block
       [emit (Print ''Aligning protein structures only...''),
        pbind (get_object_list w None) (\<lambda>objs.
          pbind (protein_objects w objs) (\<lambda>proteins.
            if length proteins < 2
            then praise (RuntimeError ''Not enough protein structures for alignment.'')
            else
              let ref = hd proteins
              in pbind (time_time w) (\<lambda>align_start.
                   for_each (enumerate 1 (tl proteins)) (\<lambda>(i, obj).
                     block
                       [try_except (pm_align w obj ref) (\<lambda>e.
                          emit (Print (nl @ warning_sign @ '' Alignment failed for '' @ obj
                                       @ '': '' @ str_error e))),
                        progress_bar_single w (int i) (int (length proteins) - 1) align_start
                          ''Aligning proteins''])))),
        emit (Print (nl @ check_mark @ '' Protein alignment completed'' @ nl))]"

definition HO_hotspot_validation :: "config \<Rightarrow> world \<Rightarrow> unit prog" where
  "HO_hotspot_validation c w =
     pbind (get_object_list w (Some (HOTSPOT_SEL c))) (\<lambda>hotspots.
       if length hotspots < 2
       then praise (RuntimeError
              (''Only '' @ str_nat (length hotspots) @ '' hotspots found with S0 > ''
               @ str_int (S0_CUTOFF c) @ ''. '' @ ''At least two are required for HO analysis.''))
       else emit (Print (check_mark @ '' '' @ str_nat (length hotspots)
                         @ '' hotspots selected for analysis'' @ nl)))"

definition HO_job :: "config \<Rightarrow> world \<Rightarrow> unit prog" where
  "HO_job c w =
     block
       [emit (Print ''Running Hotspot Overlap (HO) clustering...''),
        pbind (time_time w) (\<lambda>start.
          block
            [plot_pairwise_hca w
               \<lparr>pw_selection = HOTSPOT_SEL c, pw_function = ''ho'', pw_align = False,
                pw_radius = 1.5, pw_color_threshold = None, pw_hide_threshold = None,
                pw_annotate = True\<rparr>,
             emit (Title ''Hotspot Overlap (HO) | S0 > 20''),
             savefig w (OUTPUT c),
             emit Close,
             pbind (time_time w) (\<lambda>t.
               emit (PrintTimed (check_mark @ '' HO clustering completed in '') (t - start)
                       ''s'')),
             emit (Print (''Saved: '' @ OUTPUT c)),
             emit (Print (nl @ ''=== HO ANALYSIS FINISHED SUCCESSFULLY ==='' @ nl))])]"

definition hca_HO :: "config \<Rightarrow> world \<Rightarrow> unit prog" where
  "hca_HO c w =
     block
       [undo_disable w,
        emit (Print (nl @ ''=== HCA: Hotspot Overlap (HO) ==='' @ nl)),
        single_load_structures c w ''No FTMap PDB files found. Check BASE_PATH.''
          ''Loading FTMap'' (nl @ check_mark @ '' FTMap structures loaded'' @ nl),
        HO_align_proteins c w,
        HO_hotspot_validation c w,
        HO_job c w]"

text \<open>
  \<^verbatim>\<open>hca_jaccard.py\<close>, lines 59 to 62, and \<^verbatim>\<open>hca_overlap.py\<close>, lines 64 to 68: the alignment
  loop without a \<^verbatim>\<open>try\<close>, so what \<^verbatim>\<open>pm.align\<close> raises leaves the loop and the script.
\<close>

definition plain_alignment :: "world \<Rightarrow> unit prog" where
  "plain_alignment w =
     pbind (get_object_list w None) (\<lambda>objs.
       case objs of
         [] \<Rightarrow> praise IndexError
       | ref # rest \<Rightarrow> for_each rest (\<lambda>obj. pm_align w obj ref))"

definition jaccard_hotspot_validation :: "config \<Rightarrow> world \<Rightarrow> unit prog" where
  "jaccard_hotspot_validation c w =
     pbind (get_object_list w (Some (HOTSPOT_SEL c))) (\<lambda>hotspots.
       if length hotspots < 2
       then praise (RuntimeError ''Not enough hotspots for Jaccard analysis'')
       else pret ())"

definition jaccard_job :: "config \<Rightarrow> world \<Rightarrow> unit prog" where
  "jaccard_job c w =
     block
       [emit (Print ''Running Jaccard clustering...''),
        pbind (time_time w) (\<lambda>start.
          block
            [plot_pairwise_hca w
               \<lparr>pw_selection = HOTSPOT_SEL c, pw_function = ''jaccard'', pw_align = True,
                pw_radius = 5.0, pw_color_threshold = None, pw_hide_threshold = None,
                pw_annotate = True\<rparr>,
             emit (Title ''Residue Jaccard Similarity | S0 > 20''),
             savefig w (OUTPUT c),
             emit Close,
             pbind (time_time w) (\<lambda>t.
               emit (PrintTimed (check_mark @ '' Jaccard completed in '') (t - start) ''s'')),
             emit (Print (''Saved: '' @ OUTPUT c))])]"

definition hca_jaccard :: "config \<Rightarrow> world \<Rightarrow> unit prog" where
  "hca_jaccard c w =
     block
       [undo_disable w,
        emit (Print (nl @ ''=== HCA: Residue Jaccard ==='' @ nl)),
        single_load_structures c w ''No FTMap PDB files found.''
          ''Loading'' (nl @ check_mark @ '' FTMap loaded'' @ nl),
        plain_alignment w,
        jaccard_hotspot_validation c w,
        jaccard_job c w]"

definition overlap_hotspot_validation :: "config \<Rightarrow> world \<Rightarrow> unit prog" where
  "overlap_hotspot_validation c w =
     pbind (get_object_list w (Some (HOTSPOT_SEL c))) (\<lambda>hotspots.
       if length hotspots < 2
       then praise (RuntimeError
              (''Only '' @ str_nat (length hotspots) @ '' hotspots found with S0 > ''
               @ str_int (S0_CUTOFF c) @ ''. ''
               @ ''At least two are required for overlap analysis.''))
       else emit (Print (check_mark @ '' '' @ str_nat (length hotspots)
                         @ '' hotspots selected'' @ nl)))"

definition overlap_job :: "config \<Rightarrow> world \<Rightarrow> unit prog" where
  "overlap_job c w =
     block
       [emit (Print ''Running residue overlap clustering...''),
        pbind (time_time w) (\<lambda>start.
          block
            [plot_pairwise_hca w
               \<lparr>pw_selection = HOTSPOT_SEL c, pw_function = ''overlap'', pw_align = True,
                pw_radius = 5.0, pw_color_threshold = None, pw_hide_threshold = None,
                pw_annotate = True\<rparr>,
             emit (Title ''Residue Overlap Similarity | S0 > 20''),
             savefig w (OUTPUT c),
             emit Close,
             pbind (time_time w) (\<lambda>t.
               emit (PrintTimed (check_mark @ '' Overlap HCA completed in '') (t - start)
                       ''s'')),
             emit (Print (''Saved: '' @ OUTPUT c @ nl))])]"

definition hca_overlap :: "config \<Rightarrow> world \<Rightarrow> unit prog" where
  "hca_overlap c w =
     block
       [undo_disable w,
        emit (Print (nl @ ''=== HCA: Residue Overlap Similarity ==='' @ nl)),
        single_load_structures c w ''No FTMap PDB files found. Check BASE_PATH.''
          ''Loading'' (nl @ check_mark @ '' FTMap structures loaded'' @ nl),
        plain_alignment w,
        emit (Print (check_mark @ '' Structures aligned'' @ nl)),
        overlap_hotspot_validation c w,
        overlap_job c w]"

text \<open>\<^verbatim>\<open>hca_Euclidian.py\<close>: no alignment and no validation of the selection.\<close>

definition Euclidian_job :: "config \<Rightarrow> world \<Rightarrow> unit prog" where
  "Euclidian_job c w =
     block
       [emit (Print ''Running Euclidean clustering...''),
        pbind (time_time w) (\<lambda>start.
          block
            [plot_euclidean_hca w
               \<lparr>eu_selection = EUCLIDEAN_SEL c, eu_properties = [''S0'', ''CD'', ''MD''],
                eu_normalize = True, eu_linkage_method = ''ward'',
                eu_hide_threshold = None, eu_annotate = True\<rparr>,
             emit (Title ''Euclidean HCA (S0 + CD + MD) | S0 > 20''),
             savefig w (OUTPUT c),
             emit Close,
             pbind (time_time w) (\<lambda>t.
               emit (PrintTimed (check_mark @ '' Euclidean HCA completed in '') (t - start)
                       ''s'')),
             emit (Print (''Saved: '' @ OUTPUT c))])]"

definition hca_Euclidian :: "config \<Rightarrow> world \<Rightarrow> unit prog" where
  "hca_Euclidian c w =
     block
       [undo_disable w,
        emit (Print (nl @ ''=== HCA: Euclidean (S0 + CD + MD) ==='' @ nl)),
        single_load_structures c w ''No FTMap PDB files found.''
          ''Loading'' (nl @ check_mark @ '' FTMap loaded'' @ nl),
        Euclidian_job c w]"

section \<open>Classes of events\<close>

text \<open>The two clustering calls.\<close>
fun is_clustering :: "event \<Rightarrow> bool" where
  "is_clustering (PlotPairwiseHca a) = True"
| "is_clustering (PlotEuclideanHca a) = True"
| "is_clustering e = False"

text \<open>
  The events of the stages before the hotspot selection (startup, loading, alignment), and the
  events of the clustering jobs and of the final report.
\<close>

fun is_setup :: "event \<Rightarrow> bool" where
  "is_setup UndoDisable = True"
| "is_setup (Print m) = True"
| "is_setup (LoadFtmap f) = True"
| "is_setup (StdoutWrite l) = True"
| "is_setup StdoutFlush = True"
| "is_setup (GetObjectList None objs) = True"
| "is_setup (CountAtoms q) = True"
| "is_setup (Align a b) = True"
| "is_setup e = False"

fun is_job :: "event \<Rightarrow> bool" where
  "is_job (Print m) = True"
| "is_job (PrintTimed p t q) = True"
| "is_job (PlotPairwiseHca a) = True"
| "is_job (PlotEuclideanHca a) = True"
| "is_job (Title t) = True"
| "is_job (Savefig p d b) = True"
| "is_job Close = True"
| "is_job e = False"

text \<open>
  A program emits only events of a class \<open>Q\<close> when every run of it, from any state, extends the
  log by events of that class.
\<close>

definition emits :: "(event \<Rightarrow> bool) \<Rightarrow> 'a prog \<Rightarrow> bool" where
  "emits Q m \<longleftrightarrow> (\<forall>s r s'. m s = (r, s') \<longrightarrow> (\<exists>evs. trace s' = trace s @ evs \<and> list_all Q evs))"

section \<open>A sample world\<close>

text \<open>
  Two files are found; loading a file creates one object named after it; every selection
  matches every object; no collaborator raises; the clock advances by one second per reading.
\<close>

definition world0 :: world where
  "world0 =
     \<lparr>env_has_undo_disable = True,
      env_expanduser = (\<lambda>p. p),
      env_expandvars = (\<lambda>p. p),
      env_glob = (\<lambda>p. [''a.pdb'', ''b.pdb'']),
      env_load_ftmap = (\<lambda>f. Inr [f]),
      env_selects = (\<lambda>q obj. True),
      env_count_atoms = (\<lambda>q. 1),
      env_align = (\<lambda>a b. None),
      env_plot_pairwise_hca = (\<lambda>a. None),
      env_plot_euclidean_hca = (\<lambda>a. None),
      env_savefig = (\<lambda>p. None),
      env_clock = (\<lambda>n. real n)\<rparr>"

definition config0 :: config where
  "config0 = \<lparr>BASE_PATH = ''*.pdb'', S0_CUTOFF = 20, ALIGN_STRUCTURES = True,
               OUTPUT_PREFIX = ''out'', OUTPUT = ''out.png''\<rparr>"

text \<open>
  A validation stage with message \<open>msg\<close>: it makes no clustering call, every selection it logs
  returned the same list \<open>hs\<close>, and it raises \<open>RuntimeError (msg (length hs))\<close> exactly when
  \<open>hs\<close> has fewer than two elements.
\<close>

definition validates :: "(nat \<Rightarrow> string) \<Rightarrow> unit prog \<Rightarrow> bool" where
  "validates msg V \<longleftrightarrow>
     (\<forall>s r s'. V s = (r, s') \<longrightarrow>
        (\<exists>hs evs. trace s' = trace s @ evs \<and> filter is_clustering evs = [] \<and>
           (\<forall>q hs'. GetObjectList (Some q) hs' \<in> set evs \<longrightarrow> hs' = hs) \<and>
           (if length hs < 2 then r = Inl (RuntimeError (msg (length hs))) else r = Inr ())))"

text \<open>The f-string of the validation message, up to the closing sentence.\<close>

abbreviation only_hotspots_found :: "nat \<Rightarrow> int \<Rightarrow> string \<Rightarrow> string" where
  "only_hotspots_found k cutoff rest \<equiv>
     ''Only '' @ str_nat k @ '' hotspots found with S0 > '' @ str_int cutoff @ ''. '' @ rest"

text \<open>The sample world with a selection that matches one object only.\<close>

definition world1 :: world where
  "world1 = world0\<lparr>env_selects := (\<lambda>q obj. obj = ''a.pdb'')\<rparr>"

text \<open>The calls into the loading, alignment, selection and clustering collaborators.\<close>

fun is_stage_call :: "event \<Rightarrow> bool" where
  "is_stage_call (LoadFtmap f) = True"
| "is_stage_call (GetObjectList q objs) = True"
| "is_stage_call (CountAtoms q) = True"
| "is_stage_call (Align a b) = True"
| "is_stage_call (PlotPairwiseHca a) = True"
| "is_stage_call (PlotEuclideanHca a) = True"
| "is_stage_call e = False"

text \<open>The sample world with a pattern that matches no file.\<close>

definition world_no_files :: world where
  "world_no_files = world0\<lparr>env_glob := (\<lambda>p. [])\<rparr>"

text \<open>The ETA values of the progress lines in a log, in order.\<close>

fun written_etas :: "event list \<Rightarrow> real list" where
  "written_etas [] = []"
| "written_etas (StdoutWrite l # es) = pl_eta l # written_etas es"
| "written_etas (e # es) = written_etas es"

text \<open>The sample world with a clock that is set back by five seconds after its first reading.\<close>

definition world_clock_back :: world where
  "world_clock_back = world0\<lparr>env_clock := (\<lambda>n. if n = 0 then 10 else 5)\<rparr>"

text \<open>The titles set by \<^verbatim>\<open>plt.title\<close> in a log, in order.\<close>

fun titles :: "event list \<Rightarrow> string list" where
  "titles [] = []"
| "titles (Title t # es) = t # titles es"
| "titles (e # es) = titles es"

text \<open>The sample configuration with the cutoff set to 30.\<close>

definition config30 :: config where
  "config30 = config0\<lparr>S0_CUTOFF := 30\<rparr>"

text \<open>Calls of \<^verbatim>\<open>pm.get_object_list\<close> with a selection.\<close>

fun is_selection :: "event \<Rightarrow> bool" where
  "is_selection (GetObjectList (Some q) objs) = True"
| "is_selection e = False"

text \<open>
  The selection strings of a run, as the script builds them from the configuration: every
  selection query asks for \<open>HOTSPOT_SEL\<close>, the pairwise jobs cluster \<open>HOTSPOT_SEL\<close>, and the
  Euclidean job clusters \<open>EUCLIDEAN_SEL\<close>.
\<close>

fun selects_as_written :: "config \<Rightarrow> event \<Rightarrow> bool" where
  "selects_as_written c (GetObjectList (Some q) objs) = (q = HOTSPOT_SEL c)"
| "selects_as_written c (PlotPairwiseHca a) = (pw_selection a = HOTSPOT_SEL c)"
| "selects_as_written c (PlotEuclideanHca a) = (eu_selection a = EUCLIDEAN_SEL c)"
| "selects_as_written c e = True"

text \<open>
  The sample world in which a selection matches every object when its text starts with an
  opening parenthesis, and no object otherwise: \<open>HOTSPOT_SEL\<close> matches both objects and
  \<open>EUCLIDEAN_SEL\<close> matches none.
\<close>

definition world_no_K15 :: world where
  "world_no_K15 = world0\<lparr>env_selects := (\<lambda>q obj. take 1 q = ''('')\<rparr>"

text \<open>The alignment calls of a log (moving object, reference), and the printed lines, in order.\<close>

fun align_calls :: "event list \<Rightarrow> (string \<times> string) list" where
  "align_calls [] = []"
| "align_calls (Align a b # es) = (a, b) # align_calls es"
| "align_calls (e # es) = align_calls es"

fun printed :: "event list \<Rightarrow> string list" where
  "printed [] = []"
| "printed (Print m # es) = m # printed es"
| "printed (e # es) = printed es"

text \<open>The objects with at least one protein atom, as \<^verbatim>\<open>hca_HO.py\<close> asks for them.\<close>

definition with_protein :: "world \<Rightarrow> string list \<Rightarrow> string list" where
  "with_protein w objs = filter (\<lambda>obj. 0 < env_count_atoms w (obj @ '' and polymer.protein'')) objs"

text \<open>The warning lines \<^verbatim>\<open>hca_HO.py\<close> prints for the objects whose alignment raises.\<close>

definition alignment_warnings :: "world \<Rightarrow> string \<Rightarrow> string list \<Rightarrow> string list" where
  "alignment_warnings w ref objs =
     concat (map (\<lambda>obj. case env_align w obj ref of
                          None \<Rightarrow> []
                        | Some msg \<Rightarrow> [nl @ warning_sign @ '' Alignment failed for '' @ obj
                                       @ '': '' @ msg]) objs)"

text \<open>
  Sample worlds: three files with no failure; three files, of which the second object's
  alignment raises; a single file; and the state of a session holding three objects.
\<close>

definition world_three :: world where
  "world_three = world0\<lparr>env_glob := (\<lambda>p. [''a.pdb'', ''b.pdb'', ''c.pdb''])\<rparr>"

definition world_align_fails :: world where
  "world_align_fails =
     world_three\<lparr>env_align := (\<lambda>obj ref. if obj = ''b.pdb'' then Some ''align failed'' else None)\<rparr>"

definition world_one_object :: world where
  "world_one_object = world0\<lparr>env_glob := (\<lambda>p. [''a.pdb''])\<rparr>"

definition three_loaded :: state where
  "three_loaded = init_state\<lparr>repo := [''a.pdb'', ''b.pdb'', ''c.pdb'']\<rparr>"


text \<open>The number of \<^verbatim>\<open>plt.close()\<close> calls in a log.\<close>

definition closes :: "event list \<Rightarrow> nat" where
  "closes es = length (filter (\<lambda>e. e = Close) es)"

text \<open>
  The plots open after a log that started with \<open>n\<close> open plots: a clustering call opens one,
  \<^verbatim>\<open>plt.close()\<close> closes one (and does nothing when none is open).
\<close>

fun count_open :: "nat \<Rightarrow> event list \<Rightarrow> nat" where
  "count_open n [] = n"
| "count_open n (e # es) =
     count_open (if is_clustering e then Suc n else if e = Close then n - 1 else n) es"

text \<open>Every clustering call of the log is made with no plot open.\<close>

fun starts_clean :: "nat \<Rightarrow> event list \<Rightarrow> bool" where
  "starts_clean n [] = True"
| "starts_clean n (e # es) =
     ((if is_clustering e then n = 0 else True)
      \<and> starts_clean (if is_clustering e then Suc n else if e = Close then n - 1 else n) es)"

text \<open>
  A program keeps the plots tidy when every run of it makes each clustering call with no plot
  open and, if it returns normally, leaves no plot open.
\<close>

definition tidy :: "'a prog \<Rightarrow> bool" where
  "tidy m \<longleftrightarrow>
     (\<forall>s r s'. m s = (r, s') \<longrightarrow>
        (\<exists>evs. trace s' = trace s @ evs \<and> starts_clean 0 evs
               \<and> (\<forall>a. r = Inr a \<longrightarrow> count_open 0 evs = 0)))"

text \<open>The paths saved by \<^verbatim>\<open>plt.savefig\<close> and the timed lines (text, seconds) of a log, in order.\<close>

fun saved :: "event list \<Rightarrow> string list" where
  "saved [] = []"
| "saved (Savefig p d b # es) = p # saved es"
| "saved (e # es) = saved es"

fun timed :: "event list \<Rightarrow> (string \<times> real) list" where
  "timed [] = []"
| "timed (PrintTimed p t q # es) = (p, t) # timed es"
| "timed (e # es) = timed es"

text \<open>
  The sample world whose clock, after fourteen readings one second apart, is set back to the
  value 2.
\<close>

definition world_clock_reset :: world where
  "world_clock_reset = world0\<lparr>env_clock := (\<lambda>n. if n < 14 then real n else 2)\<rparr>"


section \<open>Properties\<close>

lemma pbind_Inr [simp]: "m s = (Inr a, s') \<Longrightarrow> pbind m f s = f a s'"
  by (simp add: pbind_def)

lemma pbind_Inl [simp]: "m s = (Inl e, s') \<Longrightarrow> pbind m f s = (Inl e, s')"
  by (simp add: pbind_def)

lemma time_time_run [simp]:
  "time_time w s = (Inr (env_clock w (reads s)), s\<lparr>reads := Suc (reads s)\<rparr>)"
  by (simp add: time_time_def)

lemma emitsD: "emits Q m \<Longrightarrow> m s = (r, s') \<Longrightarrow> \<exists>evs. trace s' = trace s @ evs \<and> list_all Q evs"
  by (auto simp: emits_def)

lemma emits_pret [intro!]: "emits Q (pret a)"
  by (simp add: emits_def pret_def)

lemma emits_praise [intro!]: "emits Q (praise e)"
  by (simp add: emits_def praise_def)

lemma emits_emit [intro!]: "Q e \<Longrightarrow> emits Q (emit e)"
  by (auto simp add: emits_def emit_def)

lemma emits_time_time [intro!]: "emits Q (time_time w)"
  by (simp add: emits_def)

lemma emits_pbind [intro!]:
  assumes "emits Q m" and "\<And>a. emits Q (f a)"
  shows "emits Q (pbind m f)"
  unfolding emits_def
proof (intro allI impI)
  fix s r s'
  assume run: "pbind m f s = (r, s')"
  obtain r1 s1 where m: "m s = (r1, s1)" by (cases "m s")
  from emitsD [OF assms(1) m] obtain evs1 where e1: "trace s1 = trace s @ evs1" "list_all Q evs1"
    by blast
  show "\<exists>evs. trace s' = trace s @ evs \<and> list_all Q evs"
  proof (cases r1)
    case (Inl e)
    with m run have "s' = s1" by (simp add: pbind_def)
    with e1 show ?thesis by blast
  next
    case (Inr a)
    with m run have "f a s1 = (r, s')" by (simp add: pbind_def)
    from emitsD [OF assms(2) this] obtain evs2 where "trace s' = trace s1 @ evs2" "list_all Q evs2"
      by blast
    with e1 have "trace s' = trace s @ (evs1 @ evs2) \<and> list_all Q (evs1 @ evs2)" by simp
    then show ?thesis by blast
  qed
qed

lemma emits_try_except [intro!]:
  assumes "emits Q m" and "\<And>e. emits Q (h e)"
  shows "emits Q (try_except m h)"
  unfolding emits_def
proof (intro allI impI)
  fix s r s'
  assume run: "try_except m h s = (r, s')"
  obtain r1 s1 where m: "m s = (r1, s1)" by (cases "m s")
  from emitsD [OF assms(1) m] obtain evs1 where e1: "trace s1 = trace s @ evs1" "list_all Q evs1"
    by blast
  show "\<exists>evs. trace s' = trace s @ evs \<and> list_all Q evs"
  proof (cases r1)
    case (Inr a)
    with m run have "s' = s1" by (simp add: try_except_def)
    with e1 show ?thesis by blast
  next
    case (Inl e)
    with m run have "h e s1 = (r, s')" by (simp add: try_except_def)
    from emitsD [OF assms(2) this] obtain evs2 where "trace s' = trace s1 @ evs2" "list_all Q evs2"
      by blast
    with e1 have "trace s' = trace s @ (evs1 @ evs2) \<and> list_all Q (evs1 @ evs2)" by simp
    then show ?thesis by blast
  qed
qed

lemma emits_block [intro!]: "(\<And>m. m \<in> set ms \<Longrightarrow> emits Q m) \<Longrightarrow> emits Q (block ms)"
  by (induction ms) auto

lemma emits_for_each [intro!]: "(\<And>x. x \<in> set xs \<Longrightarrow> emits Q (body x)) \<Longrightarrow> emits Q (for_each xs body)"
  by (induction xs) auto

lemma emits_if [intro!]: "(b \<Longrightarrow> emits Q m) \<Longrightarrow> (\<not> b \<Longrightarrow> emits Q n) \<Longrightarrow> emits Q (if b then m else n)"
  by simp

lemma emits_let [intro!]: "emits Q (f x) \<Longrightarrow> emits Q (let y = x in f y)"
  by simp

lemma emits_case_prod [intro!]: "(\<And>a b. emits Q (f a b)) \<Longrightarrow> emits Q (case p of (a, b) \<Rightarrow> f a b)"
  by (cases p) simp

lemma emits_case_list [intro!]:
  "emits Q m \<Longrightarrow> (\<And>x ys. emits Q (f x ys)) \<Longrightarrow> emits Q (case xs of [] \<Rightarrow> m | x # ys \<Rightarrow> f x ys)"
  by (cases xs) simp_all

lemma emits_undo_disable [intro!]: "Q UndoDisable \<Longrightarrow> emits Q (undo_disable w)"
  by (auto simp: undo_disable_def)

lemma emits_load_ftmap [intro!]: "Q (LoadFtmap f) \<Longrightarrow> emits Q (load_ftmap w f)"
  by (auto simp: emits_def load_ftmap_def Let_def split: sum.splits)

lemma emits_get_object_list [intro!]:
  "(\<And>objs. Q (GetObjectList sel objs)) \<Longrightarrow> emits Q (get_object_list w sel)"
  by (auto simp: emits_def get_object_list_def Let_def)

lemma emits_count_atoms [intro!]: "Q (CountAtoms q) \<Longrightarrow> emits Q (count_atoms w q)"
  by (auto simp: emits_def count_atoms_def)

lemma emits_pm_align [intro!]: "Q (Align a b) \<Longrightarrow> emits Q (pm_align w a b)"
  by (auto simp: emits_def pm_align_def Let_def split: option.splits)

lemma emits_plot_pairwise_hca [intro!]: "Q (PlotPairwiseHca a) \<Longrightarrow> emits Q (plot_pairwise_hca w a)"
  by (auto simp: emits_def plot_pairwise_hca_def Let_def split: option.splits)

lemma emits_plot_euclidean_hca [intro!]: "Q (PlotEuclideanHca a) \<Longrightarrow> emits Q (plot_euclidean_hca w a)"
  by (auto simp: emits_def plot_euclidean_hca_def Let_def split: option.splits)

lemma emits_savefig [intro!]: "Q (Savefig p 300 ''tight'') \<Longrightarrow> emits Q (savefig w p)"
  by (auto simp: emits_def savefig_def Let_def split: option.splits)

lemma emits_progress_bar [intro!]:
  "(\<And>l. Q (StdoutWrite l)) \<Longrightarrow> Q StdoutFlush \<Longrightarrow> emits Q (progress_bar w i n t l)"
  unfolding progress_bar_def Let_def by (intro emits_pbind emits_time_time emits_if emits_praise emits_block) auto

lemma emits_progress_bar_single [intro!]:
  "(\<And>l. Q (StdoutWrite l)) \<Longrightarrow> Q StdoutFlush \<Longrightarrow> emits Q (progress_bar_single w i n t l)"
  unfolding progress_bar_single_def Let_def by (intro emits_pbind emits_time_time emits_if emits_praise emits_block) auto

lemma emits_protein_objects [intro!]:
  "(\<And>q. Q (CountAtoms q)) \<Longrightarrow> emits Q (protein_objects w objs)"
  by (induction objs) auto

lemmas run_defs = pbind_def pret_def praise_def emit_def try_except_def undo_disable_def
  load_ftmap_def get_object_list_def count_atoms_def pm_align_def plot_pairwise_hca_def
  plot_euclidean_hca_def savefig_def progress_bar_def progress_bar_single_def glob_files_def
  py_int_def ljust_def Let_def

lemmas all_defs = hca_all_analysis_def all_load_structures_def all_global_alignment_def
  all_analysis_def all_hotspot_selection_def all_job_HO_def all_job_Jaccard_def
  all_job_Overlap_def all_job_Euclidean_def all_final_report_def


lemma pbind_run:
  assumes "pbind m f s = (r, s')"
  obtains (raised) e where "m s = (Inl e, s')" "r = Inl e"
        | (returned) a s1 where "m s = (Inr a, s1)" "f a s1 = (r, s')"
  using assms by (auto simp: pbind_def split: prod.splits sum.splits)

lemma emits_all_load_structures: "emits is_setup (all_load_structures c w)"
  unfolding all_load_structures_def by (auto simp: Let_def)

lemma emits_all_global_alignment: "emits is_setup (all_global_alignment c w)"
  unfolding all_global_alignment_def by auto

lemma emits_all_jobs:
  "emits is_job (all_job_HO c w)" "emits is_job (all_job_Jaccard c w)"
  "emits is_job (all_job_Overlap c w)" "emits is_job (all_job_Euclidean c w)"
  "emits is_job (all_final_report c w g)"
  unfolding all_job_HO_def all_job_Jaccard_def all_job_Overlap_def all_job_Euclidean_def
    all_final_report_def
  by (auto simp: Let_def)

lemma hca_all_analysis_cases:
  assumes "hca_all_analysis c w s0 = (r, s')"
  obtains (setup_failed) evs e where "trace s' = trace s0 @ evs" "list_all is_setup evs" "r = Inl e"
        | (analysis) evs g s1 where "trace s1 = trace s0 @ evs" "list_all is_setup evs"
            "all_analysis c w g s1 = (r, s')"
proof -
  let ?pre = "\<lambda>g. block [emit (Print (nl @ ''=== HOTSPOT ANALYSIS PIPELINE STARTED ==='' @ nl)),
                all_load_structures c w, all_global_alignment c w]"
  define prelude where "prelude = pbind (undo_disable w) (\<lambda>_. pbind (time_time w) (\<lambda>g. pbind (?pre g) (\<lambda>_. pret g)))"
  have em: "emits is_setup prelude"
    unfolding prelude_def
    by (auto intro!: emits_all_load_structures emits_all_global_alignment)
  have eq: "hca_all_analysis c w s0 = pbind prelude (all_analysis c w) s0"
    by (simp add: hca_all_analysis_def prelude_def pbind_def pret_def
        split: prod.splits sum.splits)
  from assms eq have "pbind prelude (all_analysis c w) s0 = (r, s')" by simp
  then show ?thesis
  proof (cases rule: pbind_run)
    case (raised e)
    from emitsD [OF em raised(1)] raised(2) show ?thesis using setup_failed by blast
  next
    case (returned g s1)
    from emitsD [OF em returned(1)] returned(2) show ?thesis using analysis by blast
  qed
qed

lemma all_hotspot_selection_run:
  "all_hotspot_selection c w s =
     (let hs = filter (env_selects w (HOTSPOT_SEL c)) (repo s);
          s1 = s\<lparr>trace := trace s @
                 [Print (''Using hotspot selection:'' @ nl @ ''  '' @ HOTSPOT_SEL c @ nl),
                  GetObjectList (Some (HOTSPOT_SEL c)) hs]\<rparr>
      in if length hs < 2
         then (Inl (RuntimeError
                 (''Only '' @ str_nat (length hs) @ '' hotspots found with S0 > ''
                  @ str_int (S0_CUTOFF c) @ ''. At least two are required for HCA.'')), s1)
         else (Inr (), s1\<lparr>trace := trace s1 @
                 [Print (check_mark @ '' '' @ str_nat (length hs)
                         @ '' hotspots selected for analysis'' @ nl)]\<rparr>))"
  by (simp add: all_hotspot_selection_def emit_def pbind_def get_object_list_def praise_def
      pret_def Let_def)

lemma emits_all_after_selection:
  "emits is_job (block [all_job_HO c w, all_job_Jaccard c w, all_job_Overlap c w,
                        all_job_Euclidean c w, all_final_report c w g])"
  by (auto intro: emits_all_jobs)

lemma not_setup_selection: "list_all is_setup evs \<Longrightarrow> GetObjectList (Some q) hs \<notin> set evs"
  by (auto simp: list_all_iff)

lemma not_job_selection: "list_all is_job evs \<Longrightarrow> GetObjectList q hs \<notin> set evs"
  by (auto simp: list_all_iff)

lemma setup_no_clustering: "list_all is_setup evs \<Longrightarrow> filter is_clustering evs = []"
  by (induction evs) (auto elim: is_setup.elims)

lemma hca_all_analysis_validation:
  assumes run: "hca_all_analysis c w init_state = (r, s)"
    and sel: "GetObjectList (Some q) hs \<in> set (trace s)" and k: "length hs < 2"
  shows "r = Inl (RuntimeError
                 (''Only '' @ str_nat (length hs) @ '' hotspots found with S0 > ''
                  @ str_int (S0_CUTOFF c) @ ''. At least two are required for HCA.''))
       \<and> filter is_clustering (trace s) = []"
  using run
proof (cases rule: hca_all_analysis_cases)
  case (setup_failed evs e)
  with sel not_setup_selection [of evs q hs] show ?thesis by (simp add: init_state_def)
next
  case (analysis evs g s1)
  let ?hs = "filter (env_selects w (HOTSPOT_SEL c)) (repo s1)"
  have tr1: "trace s1 = evs" using analysis(1) by (simp add: init_state_def)
  show ?thesis
  proof (cases "length ?hs < 2")
    case True
    with analysis(3) have r: "r = Inl (RuntimeError
                 (''Only '' @ str_nat (length ?hs) @ '' hotspots found with S0 > ''
                  @ str_int (S0_CUTOFF c) @ ''. At least two are required for HCA.''))"
      and s: "trace s = evs @ [Print (''Using hotspot selection:'' @ nl @ ''  '' @ HOTSPOT_SEL c @ nl),
                  GetObjectList (Some (HOTSPOT_SEL c)) ?hs]"
      by (auto simp: all_analysis_def all_hotspot_selection_run pbind_def Let_def tr1)
    from sel s not_setup_selection [OF analysis(2), of q hs] have "hs = ?hs" by auto
    with r s setup_no_clustering [OF analysis(2)] show ?thesis by simp
  next
    case False
    let ?s2 = "s1\<lparr>trace := evs @
                 [Print (''Using hotspot selection:'' @ nl @ ''  '' @ HOTSPOT_SEL c @ nl),
                  GetObjectList (Some (HOTSPOT_SEL c)) ?hs,
                  Print (check_mark @ '' '' @ str_nat (length ?hs)
                         @ '' hotspots selected for analysis'' @ nl)]\<rparr>"
    from False analysis(3) have "block [all_job_HO c w, all_job_Jaccard c w, all_job_Overlap c w,
                        all_job_Euclidean c w, all_final_report c w g] ?s2 = (r, s)"
      by (simp add: all_analysis_def all_hotspot_selection_run pbind_def Let_def tr1)
    from emitsD [OF emits_all_after_selection this] obtain evs2
      where "trace s = trace ?s2 @ evs2" "list_all is_job evs2" by blast
    with sel not_setup_selection [OF analysis(2), of q hs] not_job_selection [of evs2 "Some q" hs]
    have "hs = ?hs" by auto
    with False k show ?thesis by simp
  qed
qed

text \<open>
  C10: in both variants of the progress bar the division for the per-item average is guarded,
  so a call with \<open>current = 0\<close> and \<open>total \<ge> 1\<close> raises nothing: it takes the average and the
  ETA as 0, writes one progress line (an empty bar of 30 dashes) and flushes.
\<close>

theorem progress_bar_total_at_zero:
  assumes "1 \<le> tot"
  shows "progress_bar w 0 tot start_time pfx s =
           (Inr (), s\<lparr>reads := Suc (reads s),
                      trace := trace s @
                        [StdoutWrite \<lparr>pl_label = pfx, pl_bar = replicate 30 CHR ''-'',
                                      pl_current = 0, pl_total = tot,
                                      pl_elapsed = Some (env_clock w (reads s) - start_time),
                                      pl_eta = 0\<rparr>,
                         StdoutFlush]\<rparr>)
       \<and> progress_bar_single w 0 tot start_time pfx s =
           (Inr (), s\<lparr>reads := Suc (reads s),
                      trace := trace s @
                        [StdoutWrite \<lparr>pl_label = pfx, pl_bar = replicate 30 CHR ''-'',
                                      pl_current = 0, pl_total = tot,
                                      pl_elapsed = None, pl_eta = 0\<rparr>,
                         StdoutFlush]\<rparr>)"
  using assms
  by (simp add: progress_bar_def progress_bar_single_def py_int_def ljust_def
      emit_def pret_def pbind_def)

theorem progress_bar_total_at_zero_witness:
  "(1::int) \<le> 4 \<and>
   fst (progress_bar world0 0 4 10 ''Loading'' init_state) = Inr () \<and>
   fst (progress_bar_single world0 0 4 10 ''Loading'' init_state) = Inr ()"
  using progress_bar_total_at_zero [of 4 world0 10 "''Loading''" init_state]
  by simp

lemma validated_run:
  assumes P: "emits is_setup P" and V: "\<And>a. validates msg (V a)" and J: "\<And>a. emits is_job (J a)"
    and run: "pbind P (\<lambda>a. pbind (V a) (\<lambda>_. J a)) s0 = (r, s)"
    and s0: "trace s0 = []"
    and sel: "GetObjectList (Some q) hs \<in> set (trace s)" and k: "length hs < 2"
  shows "r = Inl (RuntimeError (msg (length hs))) \<and> filter is_clustering (trace s) = []"
  using run
proof (cases rule: pbind_run)
  case (raised e)
  from emitsD [OF P raised(1)] s0 obtain evs where "trace s = evs" "list_all is_setup evs"
    by auto
  with sel not_setup_selection [of evs q hs] show ?thesis by simp
next
  case (returned a s1)
  from emitsD [OF P returned(1)] s0 have s1: "list_all is_setup (trace s1)"
    by auto
  obtain r2 s2 where v: "V a s1 = (r2, s2)" by (cases "V a s1")
  from V [of a] v obtain hs0 evs where
    s2: "trace s2 = trace s1 @ evs" "filter is_clustering evs = []"
    and only: "\<And>q hs'. GetObjectList (Some q) hs' \<in> set evs \<Longrightarrow> hs' = hs0"
    and r2: "if length hs0 < 2 then r2 = Inl (RuntimeError (msg (length hs0))) else r2 = Inr ()"
    unfolding validates_def by blast
  show ?thesis
  proof (cases "length hs0 < 2")
    case True
    with r2 v returned(2) have fin: "r = Inl (RuntimeError (msg (length hs0)))" "s = s2"
      by (simp_all add: pbind_def)
    with sel s2 not_setup_selection [OF s1, of q hs] only [of q hs] have "hs = hs0" by auto
    with fin s2 setup_no_clustering [OF s1] show ?thesis by simp
  next
    case False
    with r2 v returned(2) have "J a s2 = (r, s)" by (simp add: pbind_def)
    from emitsD [OF J this] obtain evs2 where "trace s = trace s2 @ evs2" "list_all is_job evs2"
      by blast
    with sel s2 not_setup_selection [OF s1, of q hs] only [of q hs]
      not_job_selection [of evs2 "Some q" hs]
    have "hs = hs0" by auto
    with False k show ?thesis by simp
  qed
qed

lemma validates_all: "validates (\<lambda>k. ''Only '' @ str_nat k @ '' hotspots found with S0 > ''
                  @ str_int (S0_CUTOFF c) @ ''. At least two are required for HCA.'')
                 (all_hotspot_selection c w)"
  unfolding validates_def
  by (auto simp: all_hotspot_selection_def emit_def pbind_def get_object_list_def praise_def
      pret_def Let_def)

lemma validates_HO: "validates (\<lambda>k. ''Only '' @ str_nat k @ '' hotspots found with S0 > ''
                  @ str_int (S0_CUTOFF c) @ ''. At least two are required for HO analysis.'')
                 (HO_hotspot_validation c w)"
  unfolding validates_def
  by (auto simp: HO_hotspot_validation_def emit_def pbind_def get_object_list_def praise_def
      pret_def Let_def)

lemma validates_overlap: "validates (\<lambda>k. ''Only '' @ str_nat k @ '' hotspots found with S0 > ''
                  @ str_int (S0_CUTOFF c) @ ''. At least two are required for overlap analysis.'')
                 (overlap_hotspot_validation c w)"
  unfolding validates_def
  by (auto simp: overlap_hotspot_validation_def emit_def pbind_def get_object_list_def praise_def
      pret_def Let_def)

lemma validates_jaccard: "validates (\<lambda>k. ''Not enough hotspots for Jaccard analysis'')
                 (jaccard_hotspot_validation c w)"
  unfolding validates_def
  by (auto simp: jaccard_hotspot_validation_def emit_def pbind_def get_object_list_def praise_def
      pret_def Let_def)

lemma emits_single_load_structures: "emits is_setup (single_load_structures c w m l d)"
  unfolding single_load_structures_def by (auto simp: Let_def)

lemma emits_HO_align_proteins: "emits is_setup (HO_align_proteins c w)"
  unfolding HO_align_proteins_def by (auto simp: Let_def)

lemma emits_plain_alignment: "emits is_setup (plain_alignment w)"
  unfolding plain_alignment_def by auto

lemma emits_single_jobs:
  "emits is_job (HO_job c w)" "emits is_job (jaccard_job c w)"
  "emits is_job (overlap_job c w)" "emits is_job (Euclidian_job c w)"
  unfolding HO_job_def jaccard_job_def overlap_job_def Euclidian_job_def
  by auto

lemma block_append: "block (ms @ ns) s = pbind (block ms) (\<lambda>_. block ns) s"
  by (induction ms arbitrary: s) (auto simp: pbind_def pret_def split: prod.splits sum.splits)

lemma block_single: "pbind m (\<lambda>_. block [n]) s = pbind m (\<lambda>_. n) s"
  by (auto simp: pbind_def pret_def split: prod.splits sum.splits)

lemma hca_all_analysis_shape:
  "hca_all_analysis c w s0 =
     pbind (pbind (undo_disable w) (\<lambda>_. pbind (time_time w) (\<lambda>g.
              pbind (block [emit (Print (nl @ ''=== HOTSPOT ANALYSIS PIPELINE STARTED ==='' @ nl)),
                            all_load_structures c w, all_global_alignment c w]) (\<lambda>_. pret g))))
       (\<lambda>g. pbind (all_hotspot_selection c w)
              (\<lambda>_. block [all_job_HO c w, all_job_Jaccard c w, all_job_Overlap c w,
                          all_job_Euclidean c w, all_final_report c w g])) s0"
  by (simp add: hca_all_analysis_def all_analysis_def pbind_def pret_def
      split: prod.splits sum.splits)

lemma hca_HO_shape:
  "hca_HO c w s0 =
     pbind (block [undo_disable w, emit (Print (nl @ ''=== HCA: Hotspot Overlap (HO) ==='' @ nl)),
        single_load_structures c w ''No FTMap PDB files found. Check BASE_PATH.''
          ''Loading FTMap'' (nl @ check_mark @ '' FTMap structures loaded'' @ nl),
        HO_align_proteins c w])
       (\<lambda>_. pbind (HO_hotspot_validation c w) (\<lambda>_. HO_job c w)) s0"
  by (simp add: hca_HO_def pbind_def pret_def split: prod.splits sum.splits)

lemma hca_overlap_shape:
  "hca_overlap c w s0 =
     pbind (block [undo_disable w,
        emit (Print (nl @ ''=== HCA: Residue Overlap Similarity ==='' @ nl)),
        single_load_structures c w ''No FTMap PDB files found. Check BASE_PATH.''
          ''Loading'' (nl @ check_mark @ '' FTMap structures loaded'' @ nl),
        plain_alignment w,
        emit (Print (check_mark @ '' Structures aligned'' @ nl))])
       (\<lambda>_. pbind (overlap_hotspot_validation c w) (\<lambda>_. overlap_job c w)) s0"
  by (simp add: hca_overlap_def pbind_def pret_def split: prod.splits sum.splits)

lemma hca_jaccard_shape:
  "hca_jaccard c w s0 =
     pbind (block [undo_disable w, emit (Print (nl @ ''=== HCA: Residue Jaccard ==='' @ nl)),
        single_load_structures c w ''No FTMap PDB files found.''
          ''Loading'' (nl @ check_mark @ '' FTMap loaded'' @ nl),
        plain_alignment w])
       (\<lambda>_. pbind (jaccard_hotspot_validation c w) (\<lambda>_. jaccard_job c w)) s0"
  by (simp add: hca_jaccard_def pbind_def pret_def split: prod.splits sum.splits)

lemma emits_all_prelude:
  "emits is_setup (pbind (undo_disable w) (\<lambda>_. pbind (time_time w) (\<lambda>g.
              pbind (block [emit (Print (nl @ ''=== HOTSPOT ANALYSIS PIPELINE STARTED ==='' @ nl)),
                            all_load_structures c w, all_global_alignment c w]) (\<lambda>_. pret g))))"
  by (auto intro!: emits_all_load_structures emits_all_global_alignment)

lemma emits_HO_prelude:
  "emits is_setup (block [undo_disable w, emit (Print m),
        single_load_structures c w a b d, HO_align_proteins c w])"
  by (auto intro!: emits_single_load_structures emits_HO_align_proteins)

lemma emits_overlap_prelude:
  "emits is_setup (block [undo_disable w, emit (Print m),
        single_load_structures c w a b d, plain_alignment w, emit (Print m')])"
  by (auto intro!: emits_single_load_structures emits_plain_alignment)

lemma emits_jaccard_prelude:
  "emits is_setup (block [undo_disable w, emit (Print m),
        single_load_structures c w a b d, plain_alignment w])"
  by (auto intro!: emits_single_load_structures emits_plain_alignment)

lemma selects_irrelevant:
  "time_time (w\<lparr>env_selects := f\<rparr>) = time_time w"
  "undo_disable (w\<lparr>env_selects := f\<rparr>) = undo_disable w"
  "glob_files c (w\<lparr>env_selects := f\<rparr>) = glob_files c w"
  "load_ftmap (w\<lparr>env_selects := f\<rparr>) = load_ftmap w"
  "progress_bar_single (w\<lparr>env_selects := f\<rparr>) = progress_bar_single w"
  "plot_euclidean_hca (w\<lparr>env_selects := f\<rparr>) = plot_euclidean_hca w"
  "savefig (w\<lparr>env_selects := f\<rparr>) = savefig w"
  by (simp_all add: fun_eq_iff time_time_def undo_disable_def glob_files_def load_ftmap_def
      progress_bar_single_def plot_euclidean_hca_def savefig_def)

lemma hca_Euclidian_ignores_selects:
  "hca_Euclidian c (w\<lparr>env_selects := f\<rparr>) = hca_Euclidian c w"
  by (simp add: hca_Euclidian_def single_load_structures_def Euclidian_job_def
      selects_irrelevant cong: if_cong)

lemma emits_hca_Euclidian_no_selection:
  "emits (\<lambda>e. \<not> is_selection e) (hca_Euclidian c w)"
  unfolding hca_Euclidian_def single_load_structures_def Euclidian_job_def
  by (auto simp: Let_def)

lemma hca_Euclidian_no_selection:
  "filter is_selection (trace (snd (hca_Euclidian c w init_state))) = []"
proof -
  obtain r s where run: "hca_Euclidian c w init_state = (r, s)"
    by (cases "hca_Euclidian c w init_state")
  from emitsD [OF emits_hca_Euclidian_no_selection run] obtain evs
    where "trace s = evs" "list_all (\<lambda>e. \<not> is_selection e) evs"
    by (auto simp: init_state_def)
  then have "filter is_selection (trace s) = []"
    by (auto simp: list_all_iff filter_empty_conv)
  with run show ?thesis by simp
qed

lemma only_hotspots_found_contains:
  "sublist (str_nat k) (only_hotspots_found k x rest)"
  "sublist (str_int x) (only_hotspots_found k x rest)"
  using sublist_appendI [of "str_nat k" "''Only ''"]
    sublist_appendI [of "str_int x" "''Only '' @ str_nat k @ '' hotspots found with S0 > ''"]
  by simp_all

text \<open>
  C1, as amended. In \<^verbatim>\<open>hca_all_analysis.py\<close>, \<^verbatim>\<open>hca_HO.py\<close> and \<^verbatim>\<open>hca_overlap.py\<close>, a run
  whose hotspot selection returned \<open>k < 2\<close> objects ends in the \<^verbatim>\<open>RuntimeError\<close> of the
  validation, no clustering call has been made, and the raised message holds the decimal \<open>k\<close>
  and the decimal cutoff. In \<^verbatim>\<open>hca_jaccard.py\<close> such a run ends in a \<^verbatim>\<open>RuntimeError\<close> before
  any clustering call too. \<^verbatim>\<open>hca_Euclidian.py\<close> performs no cardinality validation: no run of
  it queries a selection, and its runs do not depend on what the selections match.
\<close>

theorem insufficient_hotspots_raise:
  "(GetObjectList (Some q) hs \<in> set (trace s) \<and> length hs < 2 \<longrightarrow>
      (hca_all_analysis c w init_state = (r, s) \<longrightarrow>
         (\<exists>m. r = Inl (RuntimeError m)
            \<and> m = only_hotspots_found (length hs) (S0_CUTOFF c)
                    ''At least two are required for HCA.''
            \<and> sublist (str_nat (length hs)) m \<and> sublist (str_int (S0_CUTOFF c)) m)
         \<and> filter is_clustering (trace s) = [])
    \<and> (hca_HO c w init_state = (r, s) \<longrightarrow>
         (\<exists>m. r = Inl (RuntimeError m)
            \<and> m = only_hotspots_found (length hs) (S0_CUTOFF c)
                    ''At least two are required for HO analysis.''
            \<and> sublist (str_nat (length hs)) m \<and> sublist (str_int (S0_CUTOFF c)) m)
         \<and> filter is_clustering (trace s) = [])
    \<and> (hca_overlap c w init_state = (r, s) \<longrightarrow>
         (\<exists>m. r = Inl (RuntimeError m)
            \<and> m = only_hotspots_found (length hs) (S0_CUTOFF c)
                    ''At least two are required for overlap analysis.''
            \<and> sublist (str_nat (length hs)) m \<and> sublist (str_int (S0_CUTOFF c)) m)
         \<and> filter is_clustering (trace s) = [])
    \<and> (hca_jaccard c w init_state = (r, s) \<longrightarrow>
         (\<exists>m. r = Inl (RuntimeError m)) \<and> filter is_clustering (trace s) = []))
   \<and> filter is_selection (trace (snd (hca_Euclidian c w init_state))) = []
   \<and> hca_Euclidian c (w\<lparr>env_selects := f\<rparr>) = hca_Euclidian c w"
proof (intro conjI impI)
  show "filter is_selection (trace (snd (hca_Euclidian c w init_state))) = []"
    by (rule hca_Euclidian_no_selection)
  show "hca_Euclidian c (w\<lparr>env_selects := f\<rparr>) = hca_Euclidian c w"
    by (rule hca_Euclidian_ignores_selects)
next
  assume h: "GetObjectList (Some q) hs \<in> set (trace s) \<and> length hs < 2"
  then have sel: "GetObjectList (Some q) hs \<in> set (trace s)" and k: "length hs < 2"
    by simp_all
  have t0: "trace init_state = []" by (simp add: init_state_def)
  {
    assume "hca_all_analysis c w init_state = (r, s)"
    then have run: "pbind (pbind (undo_disable w) (\<lambda>_. pbind (time_time w) (\<lambda>g.
              pbind (block [emit (Print (nl @ ''=== HOTSPOT ANALYSIS PIPELINE STARTED ==='' @ nl)),
                            all_load_structures c w, all_global_alignment c w]) (\<lambda>_. pret g))))
       (\<lambda>g. pbind (all_hotspot_selection c w)
              (\<lambda>_. block [all_job_HO c w, all_job_Jaccard c w, all_job_Overlap c w,
                          all_job_Euclidean c w, all_final_report c w g])) init_state = (r, s)"
      by (simp only: hca_all_analysis_shape)
    from validated_run [OF emits_all_prelude validates_all emits_all_after_selection run t0 sel k]
    show "\<exists>m. r = Inl (RuntimeError m)
            \<and> m = only_hotspots_found (length hs) (S0_CUTOFF c)
                    ''At least two are required for HCA.''
            \<and> sublist (str_nat (length hs)) m \<and> sublist (str_int (S0_CUTOFF c)) m"
      and "filter is_clustering (trace s) = []"
      using only_hotspots_found_contains
        [where k = "length hs" and x = "S0_CUTOFF c" and rest = "''At least two are required for HCA.''"]
      by simp_all
  }
  {
    assume "hca_HO c w init_state = (r, s)"
    then have run: "pbind (block [undo_disable w, emit (Print (nl @ ''=== HCA: Hotspot Overlap (HO) ==='' @ nl)),
        single_load_structures c w ''No FTMap PDB files found. Check BASE_PATH.''
          ''Loading FTMap'' (nl @ check_mark @ '' FTMap structures loaded'' @ nl),
        HO_align_proteins c w])
       (\<lambda>_. pbind (HO_hotspot_validation c w) (\<lambda>_. HO_job c w)) init_state = (r, s)"
      by (simp only: hca_HO_shape)
    from validated_run [OF emits_HO_prelude validates_HO emits_single_jobs(1) run t0 sel k]
    show "\<exists>m. r = Inl (RuntimeError m)
            \<and> m = only_hotspots_found (length hs) (S0_CUTOFF c)
                    ''At least two are required for HO analysis.''
            \<and> sublist (str_nat (length hs)) m \<and> sublist (str_int (S0_CUTOFF c)) m"
      and "filter is_clustering (trace s) = []"
      using only_hotspots_found_contains
        [where k = "length hs" and x = "S0_CUTOFF c" and rest = "''At least two are required for HO analysis.''"]
      by simp_all
  }
  {
    assume "hca_overlap c w init_state = (r, s)"
    then have run: "pbind (block [undo_disable w,
        emit (Print (nl @ ''=== HCA: Residue Overlap Similarity ==='' @ nl)),
        single_load_structures c w ''No FTMap PDB files found. Check BASE_PATH.''
          ''Loading'' (nl @ check_mark @ '' FTMap structures loaded'' @ nl),
        plain_alignment w,
        emit (Print (check_mark @ '' Structures aligned'' @ nl))])
       (\<lambda>_. pbind (overlap_hotspot_validation c w) (\<lambda>_. overlap_job c w)) init_state = (r, s)"
      by (simp only: hca_overlap_shape)
    from validated_run [OF emits_overlap_prelude validates_overlap emits_single_jobs(3) run t0 sel k]
    show "\<exists>m. r = Inl (RuntimeError m)
            \<and> m = only_hotspots_found (length hs) (S0_CUTOFF c)
                    ''At least two are required for overlap analysis.''
            \<and> sublist (str_nat (length hs)) m \<and> sublist (str_int (S0_CUTOFF c)) m"
      and "filter is_clustering (trace s) = []"
      using only_hotspots_found_contains
        [where k = "length hs" and x = "S0_CUTOFF c" and rest = "''At least two are required for overlap analysis.''"]
      by simp_all
  }
  {
    assume "hca_jaccard c w init_state = (r, s)"
    then have run: "pbind (block [undo_disable w, emit (Print (nl @ ''=== HCA: Residue Jaccard ==='' @ nl)),
        single_load_structures c w ''No FTMap PDB files found.''
          ''Loading'' (nl @ check_mark @ '' FTMap loaded'' @ nl),
        plain_alignment w])
       (\<lambda>_. pbind (jaccard_hotspot_validation c w) (\<lambda>_. jaccard_job c w)) init_state = (r, s)"
      by (simp only: hca_jaccard_shape)
    from validated_run [OF emits_jaccard_prelude validates_jaccard emits_single_jobs(2) run t0 sel k]
    show "\<exists>m. r = Inl (RuntimeError m)"
      and "filter is_clustering (trace s) = []" by simp_all
  }
qed

lemmas single_defs = hca_HO_def hca_jaccard_def hca_overlap_def hca_Euclidian_def
  single_load_structures_def HO_align_proteins_def HO_hotspot_validation_def HO_job_def
  plain_alignment_def jaccard_hotspot_validation_def jaccard_job_def
  overlap_hotspot_validation_def overlap_job_def Euclidian_job_def

lemmas sample_defs = world0_def world1_def config0_def init_state_def enumerate_eq_zip
  HOTSPOT_SEL_def EUCLIDEAN_SEL_def str_int_def str_nat.simps

theorem insufficient_hotspots_raise_witness:
  "GetObjectList (Some (HOTSPOT_SEL config0)) [''a.pdb'']
     \<in> set (trace (snd (hca_all_analysis config0 world1 init_state)))
   \<and> GetObjectList (Some (HOTSPOT_SEL config0)) [''a.pdb'']
     \<in> set (trace (snd (hca_HO config0 world1 init_state)))
   \<and> GetObjectList (Some (HOTSPOT_SEL config0)) [''a.pdb'']
     \<in> set (trace (snd (hca_overlap config0 world1 init_state)))
   \<and> GetObjectList (Some (HOTSPOT_SEL config0)) [''a.pdb'']
     \<in> set (trace (snd (hca_jaccard config0 world1 init_state)))
   \<and> length [''a.pdb''] < 2
   \<and> fst (hca_all_analysis config0 world1 init_state) =
       Inl (RuntimeError ''Only 1 hotspots found with S0 > 20. At least two are required for HCA.'')
   \<and> fst (hca_HO config0 world1 init_state) =
       Inl (RuntimeError
             ''Only 1 hotspots found with S0 > 20. At least two are required for HO analysis.'')
   \<and> fst (hca_overlap config0 world1 init_state) =
       Inl (RuntimeError
             ''Only 1 hotspots found with S0 > 20. At least two are required for overlap analysis.'')
   \<and> filter is_clustering (trace (snd (hca_all_analysis config0 world1 init_state))) = []
   \<and> filter is_clustering (trace (snd (hca_jaccard config0 world1 init_state))) = []
   \<and> sublist ''20'' ''Only 1 hotspots found with S0 > 20. At least two are required for HCA.''
   \<and> filter is_selection (trace (snd (hca_Euclidian config0 world1 init_state))) = []
   \<and> hca_Euclidian config0 world1 = hca_Euclidian config0 world0"
proof -
  have len: "length [''a.pdb''] < 2" by simp
  have m1: "GetObjectList (Some (HOTSPOT_SEL config0)) [''a.pdb'']
     \<in> set (trace (snd (hca_all_analysis config0 world1 init_state)))"
    by (simp add: all_defs run_defs sample_defs)
  have m2: "GetObjectList (Some (HOTSPOT_SEL config0)) [''a.pdb'']
     \<in> set (trace (snd (hca_HO config0 world1 init_state)))"
    by (simp add: single_defs run_defs sample_defs)
  have m3: "GetObjectList (Some (HOTSPOT_SEL config0)) [''a.pdb'']
     \<in> set (trace (snd (hca_overlap config0 world1 init_state)))"
    by (simp add: single_defs run_defs sample_defs)
  have m4: "GetObjectList (Some (HOTSPOT_SEL config0)) [''a.pdb'']
     \<in> set (trace (snd (hca_jaccard config0 world1 init_state)))"
    by (simp add: single_defs run_defs sample_defs)
  note t1 = insufficient_hotspots_raise [where c = config0 and w = world1
      and q = "HOTSPOT_SEL config0" and hs = "[''a.pdb'']"
      and s = "snd (hca_all_analysis config0 world1 init_state)"
      and r = "fst (hca_all_analysis config0 world1 init_state)"]
  note t2 = insufficient_hotspots_raise [where c = config0 and w = world1
      and q = "HOTSPOT_SEL config0" and hs = "[''a.pdb'']"
      and s = "snd (hca_HO config0 world1 init_state)"
      and r = "fst (hca_HO config0 world1 init_state)"]
  note t3 = insufficient_hotspots_raise [where c = config0 and w = world1
      and q = "HOTSPOT_SEL config0" and hs = "[''a.pdb'']"
      and s = "snd (hca_overlap config0 world1 init_state)"
      and r = "fst (hca_overlap config0 world1 init_state)"]
  note t4 = insufficient_hotspots_raise [where c = config0 and w = world0
      and q = "HOTSPOT_SEL config0" and hs = "[''a.pdb'']"
      and s = "snd (hca_jaccard config0 world1 init_state)"
      and r = "fst (hca_jaccard config0 world1 init_state)"
      and f = "\<lambda>q obj. obj = ''a.pdb''"]
  note t5 = insufficient_hotspots_raise [where c = config0 and w = world1
      and q = "HOTSPOT_SEL config0" and hs = "[''a.pdb'']"
      and s = "snd (hca_jaccard config0 world1 init_state)"
      and r = "fst (hca_jaccard config0 world1 init_state)"]
  have cut: "S0_CUTOFF config0 = 20" by (simp add: config0_def)
  have d: "str_nat (Suc 0) = ''1''" "str_int 20 = ''20''"
    by (simp_all add: str_int_def str_nat.simps)
  from t1 m1 len have a1: "fst (hca_all_analysis config0 world1 init_state) =
       Inl (RuntimeError ''Only 1 hotspots found with S0 > 20. At least two are required for HCA.'')"
    "filter is_clustering (trace (snd (hca_all_analysis config0 world1 init_state))) = []"
    "sublist ''20'' ''Only 1 hotspots found with S0 > 20. At least two are required for HCA.''"
    by (simp_all add: cut d)
  from t2 m2 len have a2: "fst (hca_HO config0 world1 init_state) =
       Inl (RuntimeError
             ''Only 1 hotspots found with S0 > 20. At least two are required for HO analysis.'')"
    by (simp add: cut d)
  from t3 m3 len have a3: "fst (hca_overlap config0 world1 init_state) =
       Inl (RuntimeError
             ''Only 1 hotspots found with S0 > 20. At least two are required for overlap analysis.'')"
    by (simp add: cut d)
  from t5 m4 len have a4:
    "filter is_clustering (trace (snd (hca_jaccard config0 world1 init_state))) = []"
    by simp
  from t1 have a5: "filter is_selection (trace (snd (hca_Euclidian config0 world1 init_state))) = []"
    by simp
  from t4 have a6: "hca_Euclidian config0 world1 = hca_Euclidian config0 world0"
    by (simp add: world1_def)
  from m1 m2 m3 m4 len a1 a2 a3 a4 a5 a6 show ?thesis by blast
qed

text \<open>
  C1 as stated fails: with one selected hotspot and cutoff 20, \<^verbatim>\<open>hca_jaccard.py\<close> raises a
  message that holds neither \<open>1\<close> nor \<open>20\<close>, and \<^verbatim>\<open>hca_Euclidian.py\<close> raises nothing and calls
  the clustering on a selection of one object.
\<close>

theorem insufficient_hotspots_counterexample:
  "fst (hca_jaccard config0 world1 init_state) =
       Inl (RuntimeError ''Not enough hotspots for Jaccard analysis'')
   \<and> GetObjectList (Some (HOTSPOT_SEL config0)) [''a.pdb'']
       \<in> set (trace (snd (hca_jaccard config0 world1 init_state)))
   \<and> \<not> sublist (str_nat (length [''a.pdb''])) ''Not enough hotspots for Jaccard analysis''
   \<and> \<not> sublist (str_int (S0_CUTOFF config0)) ''Not enough hotspots for Jaccard analysis''
   \<and> fst (hca_Euclidian config0 world1 init_state) = Inr ()
   \<and> filter (env_selects world1 (EUCLIDEAN_SEL config0))
        (repo (snd (hca_Euclidian config0 world1 init_state))) = [''a.pdb'']
   \<and> filter is_clustering (trace (snd (hca_Euclidian config0 world1 init_state))) =
        [PlotEuclideanHca
           \<lparr>eu_selection = ''*.K15_* AND p.S0>20'', eu_properties = [''S0'', ''CD'', ''MD''],
            eu_normalize = True, eu_linkage_method = ''ward'',
            eu_hide_threshold = None, eu_annotate = True\<rparr>]"
proof -
  have "\<not> sublist ''1'' ''Not enough hotspots for Jaccard analysis''"
    and "\<not> sublist ''20'' ''Not enough hotspots for Jaccard analysis''"
    by (simp_all add: sublist_Cons_right)
  then show ?thesis
    by (simp add: single_defs run_defs sample_defs)
qed

text \<open>
  C4: when the expanded pattern matches no file, each of the five scripts ends in the
  \<^verbatim>\<open>RuntimeError\<close> of its file check; no load, alignment, selection or clustering call has been
  made and the session holds no object.
\<close>

theorem no_input_files_abort:
  assumes "glob_files c w = []"
  shows "fst (hca_all_analysis c w init_state) =
           Inl (RuntimeError ''No FTMap PDB files found. Check BASE_PATH.'')
       \<and> filter is_stage_call (trace (snd (hca_all_analysis c w init_state))) = []
       \<and> repo (snd (hca_all_analysis c w init_state)) = []
       \<and> fst (hca_Euclidian c w init_state) = Inl (RuntimeError ''No FTMap PDB files found.'')
       \<and> filter is_stage_call (trace (snd (hca_Euclidian c w init_state))) = []
       \<and> repo (snd (hca_Euclidian c w init_state)) = []
       \<and> fst (hca_HO c w init_state) =
           Inl (RuntimeError ''No FTMap PDB files found. Check BASE_PATH.'')
       \<and> filter is_stage_call (trace (snd (hca_HO c w init_state))) = []
       \<and> fst (hca_jaccard c w init_state) = Inl (RuntimeError ''No FTMap PDB files found.'')
       \<and> filter is_stage_call (trace (snd (hca_jaccard c w init_state))) = []
       \<and> fst (hca_overlap c w init_state) =
           Inl (RuntimeError ''No FTMap PDB files found. Check BASE_PATH.'')
       \<and> filter is_stage_call (trace (snd (hca_overlap c w init_state))) = []"
  using assms
  by (simp add: hca_all_analysis_def all_load_structures_def hca_Euclidian_def hca_HO_def
      hca_jaccard_def hca_overlap_def single_load_structures_def undo_disable_def
      pbind_def pret_def praise_def emit_def init_state_def)

theorem no_input_files_abort_witness:
  "glob_files config0 world_no_files = []
   \<and> fst (hca_all_analysis config0 world_no_files init_state) =
           Inl (RuntimeError ''No FTMap PDB files found. Check BASE_PATH.'')
   \<and> filter is_stage_call (trace (snd (hca_all_analysis config0 world_no_files init_state))) = []
   \<and> fst (hca_Euclidian config0 world_no_files init_state) =
           Inl (RuntimeError ''No FTMap PDB files found.'')
   \<and> filter is_stage_call (trace (snd (hca_Euclidian config0 world_no_files init_state))) = []"
proof -
  have h: "glob_files config0 world_no_files = []"
    by (simp add: glob_files_def world_no_files_def world0_def)
  from no_input_files_abort [OF h] h show ?thesis by simp
qed

lemma py_int_div:
  assumes "0 \<le> a" and "0 < b"
  shows "py_int (real_of_int a / real_of_int b) = a div b"
  using assms by (simp add: py_int_def floor_divide_of_int_eq)

text \<open>
  C5, as amended. For \<open>total \<ge> 1\<close> and \<open>1 \<le> current \<le> total\<close>, both variants of the progress bar
  return normally after writing one line whose ETA is \<open>(elapsed / current) * (total - current)\<close>
  with \<open>elapsed = now - start_time\<close>; the ETA is 0 when \<open>current = total\<close>, and it is
  non-negative whenever the clock reading is not earlier than \<open>start_time\<close>.
\<close>

theorem progress_bar_eta:
  assumes "1 \<le> tot" and "1 \<le> current" and "current \<le> tot"
  shows "\<exists>elapsed eta.
           elapsed = env_clock w (reads s) - start_time
         \<and> eta = elapsed / real_of_int current * real_of_int (tot - current)
         \<and> progress_bar w current tot start_time pfx s =
             (Inr (), s\<lparr>reads := Suc (reads s),
                        trace := trace s @
                          [StdoutWrite
                             \<lparr>pl_label = pfx,
                              pl_bar = replicate (nat (30 * current div tot)) CHR ''=''
                                       @ replicate (nat (30 - 30 * current div tot)) CHR ''-'',
                              pl_current = current, pl_total = tot,
                              pl_elapsed = Some elapsed, pl_eta = eta\<rparr>,
                           StdoutFlush]\<rparr>)
         \<and> progress_bar_single w current tot start_time pfx s =
             (Inr (), s\<lparr>reads := Suc (reads s),
                        trace := trace s @
                          [StdoutWrite
                             \<lparr>pl_label = pfx,
                              pl_bar = ljust (replicate (nat (30 * current div tot)) CHR ''='')
                                         30 CHR ''-'',
                              pl_current = current, pl_total = tot,
                              pl_elapsed = None, pl_eta = eta\<rparr>,
                           StdoutFlush]\<rparr>)
         \<and> (current = tot \<longrightarrow> eta = 0)
         \<and> (0 \<le> elapsed \<longrightarrow> 0 \<le> eta)"
proof -
  from assms have pos: "0 \<le> 30 * current" "0 < tot" "0 < current" "tot \<noteq> 0" "current \<noteq> 0"
    by simp_all
  have fill: "py_int (real_of_int (30 * current) / real_of_int tot) = 30 * current div tot"
    using py_int_div [OF pos(1) pos(2)] .
  let ?elapsed = "env_clock w (reads s) - start_time"
  let ?eta = "?elapsed / real_of_int current * real_of_int (tot - current)"
  have nonneg: "0 \<le> ?elapsed \<longrightarrow> 0 \<le> ?eta"
    using assms by (simp add: divide_nonneg_pos)
  have a: "progress_bar w current tot start_time pfx s =
             (Inr (), s\<lparr>reads := Suc (reads s),
                        trace := trace s @
                          [StdoutWrite
                             \<lparr>pl_label = pfx,
                              pl_bar = replicate (nat (30 * current div tot)) CHR ''=''
                                       @ replicate (nat (30 - 30 * current div tot)) CHR ''-'',
                              pl_current = current, pl_total = tot,
                              pl_elapsed = Some ?elapsed, pl_eta = ?eta\<rparr>,
                           StdoutFlush]\<rparr>)"
    using pos fill
    by (simp add: progress_bar_def Let_def emit_def pret_def pbind_def del: of_int_mult)
  have b: "progress_bar_single w current tot start_time pfx s =
             (Inr (), s\<lparr>reads := Suc (reads s),
                        trace := trace s @
                          [StdoutWrite
                             \<lparr>pl_label = pfx,
                              pl_bar = ljust (replicate (nat (30 * current div tot)) CHR ''='')
                                         30 CHR ''-'',
                              pl_current = current, pl_total = tot,
                              pl_elapsed = None, pl_eta = ?eta\<rparr>,
                           StdoutFlush]\<rparr>)"
    using pos fill
    by (simp add: progress_bar_single_def Let_def emit_def pret_def pbind_def del: of_int_mult)
  from a b nonneg show ?thesis by simp
qed

theorem progress_bar_eta_witness:
  "(1::int) \<le> 4 \<and> (1::int) \<le> 3 \<and> (3::int) \<le> 4
   \<and> written_etas (trace (snd (progress_bar world0 3 4 0 ''Loading''
                                  (init_state\<lparr>reads := 6\<rparr>)))) = [2]
   \<and> written_etas (trace (snd (progress_bar_single world0 4 4 0 ''Loading''
                                  (init_state\<lparr>reads := 6\<rparr>)))) = [0]"
proof -
  have h: "(1::int) \<le> 4" "(1::int) \<le> 3" "(3::int) \<le> 4" "(1::int) \<le> 4" "(4::int) \<le> 4"
    by simp_all
  from progress_bar_eta [OF h(1) h(2) h(3), of world0 "init_state\<lparr>reads := 6\<rparr>" 0 "''Loading''"]
  have a: "written_etas (trace (snd (progress_bar world0 3 4 0 ''Loading''
                                  (init_state\<lparr>reads := 6\<rparr>)))) = [2]"
    by (auto simp: world0_def init_state_def)
  from progress_bar_eta [OF h(1) h(4) h(5), of world0 "init_state\<lparr>reads := 6\<rparr>" 0 "''Loading''"]
  have b: "written_etas (trace (snd (progress_bar_single world0 4 4 0 ''Loading''
                                  (init_state\<lparr>reads := 6\<rparr>)))) = [0]"
    by (auto simp: world0_def init_state_def)
  from a b show ?thesis by simp
qed

text \<open>
  C5 as stated fails when the clock is set back: the start time was read as 10, the next
  reading is 5, and the call with \<open>current = 1\<close> and \<open>total = 2\<close> writes the ETA \<open>-5\<close>. The same
  happens inside a script: \<^verbatim>\<open>hca_Euclidian.py\<close> on two files writes the ETAs \<open>-5\<close> and \<open>0\<close>.
\<close>

theorem progress_bar_eta_counterexample:
  "(1::int) \<le> 2 \<and> (1::int) \<le> 1
   \<and> written_etas (trace (snd (progress_bar world_clock_back 1 2 10 ''Loading''
                                  (init_state\<lparr>reads := 1\<rparr>)))) = [- 5]
   \<and> written_etas (trace (snd (progress_bar_single world_clock_back 1 2 10 ''Loading''
                                  (init_state\<lparr>reads := 1\<rparr>)))) = [- 5]
   \<and> written_etas (trace (snd (hca_Euclidian config0 world_clock_back init_state))) = [- 5, 0]"
  by (simp add: hca_Euclidian_def single_load_structures_def Euclidian_job_def run_defs
      world_clock_back_def sample_defs)

text \<open>
  C6: the titles are string constants ending in \<open>S0 > 20\<close>. With the cutoff configured as 30
  the selection asks for \<open>p.S0>30\<close>, and every title of \<^verbatim>\<open>hca_all_analysis.py\<close> and of
  \<^verbatim>\<open>hca_Euclidian.py\<close> still says 20.
\<close>

theorem titles_hard_coded_cutoff:
  "S0_CUTOFF config30 = 30
   \<and> HOTSPOT_SEL config30 = ''((*.B* *.D*) AND p.S0>30)''
   \<and> fst (hca_all_analysis config30 world0 init_state) = Inr ()
   \<and> titles (trace (snd (hca_all_analysis config30 world0 init_state))) =
       [''Hotspot Overlap (HO) | S0 > 20'', ''Residue Jaccard Similarity | S0 > 20'',
        ''Residue Overlap Similarity | S0 > 20'', ''Euclidean HCA (S0 + CD + MD) | S0 > 20'']
   \<and> fst (hca_Euclidian config30 world0 init_state) = Inr ()
   \<and> titles (trace (snd (hca_Euclidian config30 world0 init_state))) =
       [''Euclidean HCA (S0 + CD + MD) | S0 > 20'']"
  by (simp add: all_defs single_defs run_defs sample_defs config30_def)

lemma emits_selects_as_written: "emits (selects_as_written c) (hca_all_analysis c w)"
  unfolding all_defs by (auto simp: Let_def)

lemma selection_strings_differ: "EUCLIDEAN_SEL c \<noteq> HOTSPOT_SEL c"
  by (simp add: EUCLIDEAN_SEL_def HOTSPOT_SEL_def)

text \<open>
  C9: in \<^verbatim>\<open>hca_all_analysis.py\<close> every selection query of a run asks for \<open>HOTSPOT_SEL\<close>, the
  Euclidean job is called with \<open>EUCLIDEAN_SEL\<close>, and the two strings differ for every cutoff. In
  the world \<open>world_no_K15\<close> the validation passes with two hotspots, the run succeeds, and
  \<^verbatim>\<open>plot_euclidean_hca\<close> is called with a selection that matches no object of the session.
\<close>

theorem euclidean_selection_not_validated:
  "EUCLIDEAN_SEL c \<noteq> HOTSPOT_SEL c
   \<and> (hca_all_analysis c w init_state = (r, s) \<longrightarrow>
        (\<forall>q hs. GetObjectList (Some q) hs \<in> set (trace s) \<longrightarrow> q = HOTSPOT_SEL c)
      \<and> (\<forall>a. PlotEuclideanHca a \<in> set (trace s) \<longrightarrow> eu_selection a = EUCLIDEAN_SEL c))
   \<and> fst (hca_all_analysis config0 world_no_K15 init_state) = Inr ()
   \<and> filter is_selection (trace (snd (hca_all_analysis config0 world_no_K15 init_state))) =
       [GetObjectList (Some (HOTSPOT_SEL config0)) [''a.pdb'', ''b.pdb'']]
   \<and> PlotEuclideanHca
        \<lparr>eu_selection = EUCLIDEAN_SEL config0, eu_properties = [''S0'', ''CD'', ''MD''],
         eu_normalize = True, eu_linkage_method = ''ward'',
         eu_hide_threshold = Some False, eu_annotate = True\<rparr>
       \<in> set (trace (snd (hca_all_analysis config0 world_no_K15 init_state)))
   \<and> length (filter (env_selects world_no_K15 (EUCLIDEAN_SEL config0))
        (repo (snd (hca_all_analysis config0 world_no_K15 init_state)))) < 2"
proof (intro conjI impI allI)
  show "EUCLIDEAN_SEL c \<noteq> HOTSPOT_SEL c" by (rule selection_strings_differ)
next
  fix q hs
  assume run: "hca_all_analysis c w init_state = (r, s)"
    and mem: "GetObjectList (Some q) hs \<in> set (trace s)"
  from emitsD [OF emits_selects_as_written run] obtain evs
    where "trace s = evs" "list_all (selects_as_written c) evs"
    by (auto simp: init_state_def)
  with mem show "q = HOTSPOT_SEL c" by (auto simp: list_all_iff)
next
  fix a
  assume run: "hca_all_analysis c w init_state = (r, s)"
    and mem: "PlotEuclideanHca a \<in> set (trace s)"
  from emitsD [OF emits_selects_as_written run] obtain evs
    where "trace s = evs" "list_all (selects_as_written c) evs"
    by (auto simp: init_state_def)
  with mem show "eu_selection a = EUCLIDEAN_SEL c" by (auto simp: list_all_iff)
qed (simp_all add: all_defs run_defs sample_defs world_no_K15_def)

theorem euclidean_selection_not_validated_witness:
  "GetObjectList (Some ''((*.B* *.D*) AND p.S0>20)'') [''a.pdb'', ''b.pdb'']
     \<in> set (trace (snd (hca_all_analysis config0 world0 init_state)))
   \<and> ''((*.B* *.D*) AND p.S0>20)'' = HOTSPOT_SEL config0
   \<and> PlotEuclideanHca
        \<lparr>eu_selection = ''*.K15_* AND p.S0>20'', eu_properties = [''S0'', ''CD'', ''MD''],
         eu_normalize = True, eu_linkage_method = ''ward'',
         eu_hide_threshold = Some False, eu_annotate = True\<rparr>
       \<in> set (trace (snd (hca_all_analysis config0 world0 init_state)))
   \<and> ''*.K15_* AND p.S0>20'' = EUCLIDEAN_SEL config0
   \<and> EUCLIDEAN_SEL config0 \<noteq> HOTSPOT_SEL config0"
proof -
  let ?run = "hca_all_analysis config0 world0 init_state"
  let ?args = "\<lparr>eu_selection = ''*.K15_* AND p.S0>20'', eu_properties = [''S0'', ''CD'', ''MD''],
         eu_normalize = True, eu_linkage_method = ''ward'',
         eu_hide_threshold = Some False, eu_annotate = True\<rparr>"
  have run: "?run = (fst ?run, snd ?run)" by simp
  have m1: "GetObjectList (Some ''((*.B* *.D*) AND p.S0>20)'') [''a.pdb'', ''b.pdb'']
     \<in> set (trace (snd ?run))"
    by (simp add: all_defs run_defs sample_defs)
  have m2: "PlotEuclideanHca ?args \<in> set (trace (snd ?run))"
    by (simp add: all_defs run_defs sample_defs)
  note t = euclidean_selection_not_validated [of config0 world0 "fst ?run" "snd ?run"]
  from t run m1 have a: "''((*.B* *.D*) AND p.S0>20)'' = HOTSPOT_SEL config0" by blast
  from t run m2 have "eu_selection ?args = EUCLIDEAN_SEL config0" by blast
  then have b: "''*.K15_* AND p.S0>20'' = EUCLIDEAN_SEL config0" by simp
  from t have c: "EUCLIDEAN_SEL config0 \<noteq> HOTSPOT_SEL config0" by blast
  from m1 m2 a b c show ?thesis by blast
qed

lemma align_calls_append [simp]: "align_calls (xs @ ys) = align_calls xs @ align_calls ys"
  by (induction xs rule: align_calls.induct) simp_all

lemma printed_append [simp]: "printed (xs @ ys) = printed xs @ printed ys"
  by (induction xs rule: printed.induct) simp_all

lemma progress_bar_returns:
  "tot \<noteq> 0 \<Longrightarrow> \<exists>line. progress_bar w i tot st l s =
      (Inr (), s\<lparr>reads := Suc (reads s), trace := trace s @ [StdoutWrite line, StdoutFlush]\<rparr>)"
  by (auto simp add: progress_bar_def Let_def emit_def pret_def pbind_def)

lemma progress_bar_single_returns:
  "tot \<noteq> 0 \<Longrightarrow> \<exists>line. progress_bar_single w i tot st l s =
      (Inr (), s\<lparr>reads := Suc (reads s), trace := trace s @ [StdoutWrite line, StdoutFlush]\<rparr>)"
  by (auto simp add: progress_bar_single_def Let_def emit_def pret_def pbind_def)

lemma all_align_loop:
  assumes "tot \<noteq> 0"
  shows "\<exists>s' evs. for_each (enumerate k xs) (\<lambda>(i, obj).
                   block [try_except (pm_align w obj ref) (\<lambda>e. pret ()),
                          progress_bar w (int i) tot st ''Aligning'']) s = (Inr (), s')
          \<and> repo s' = repo s \<and> trace s' = trace s @ evs
          \<and> align_calls evs = map (\<lambda>obj. (obj, ref)) xs \<and> printed evs = []"
proof (induction xs arbitrary: k s)
  case Nil
  show ?case by (simp add: pret_def)
next
  case (Cons x xs)
  let ?s1 = "s\<lparr>trace := trace s @ [Align x ref]\<rparr>"
  have a: "try_except (pm_align w x ref) (\<lambda>e. pret ()) s = (Inr (), ?s1)"
    by (simp add: try_except_def pm_align_def pret_def Let_def split: option.splits)
  from progress_bar_returns [OF assms, of w "int k" st "''Aligning''" ?s1] obtain line
    where b: "progress_bar w (int k) tot st ''Aligning'' ?s1 =
      (Inr (), ?s1\<lparr>reads := Suc (reads ?s1), trace := trace ?s1 @ [StdoutWrite line, StdoutFlush]\<rparr>)"
    by blast
  let ?s2 = "?s1\<lparr>reads := Suc (reads ?s1), trace := trace ?s1 @ [StdoutWrite line, StdoutFlush]\<rparr>"
  from Cons.IH [of "Suc k" ?s2] obtain s' evs where
    ih: "for_each (enumerate (Suc k) xs) (\<lambda>(i, obj).
                   block [try_except (pm_align w obj ref) (\<lambda>e. pret ()),
                          progress_bar w (int i) tot st ''Aligning'']) ?s2 = (Inr (), s')"
      "repo s' = repo ?s2" "trace s' = trace ?s2 @ evs"
      "align_calls evs = map (\<lambda>obj. (obj, ref)) xs" "printed evs = []"
    by blast
  have run: "for_each (enumerate k (x # xs)) (\<lambda>(i, obj).
                   block [try_except (pm_align w obj ref) (\<lambda>e. pret ()),
                          progress_bar w (int i) tot st ''Aligning'']) s = (Inr (), s')"
    using a b ih(1) by (simp add: pbind_def pret_def)
  have "trace s' = trace s @ ([Align x ref, StdoutWrite line, StdoutFlush] @ evs)"
    using ih(3) by simp
  moreover have "align_calls ([Align x ref, StdoutWrite line, StdoutFlush] @ evs)
                   = map (\<lambda>obj. (obj, ref)) (x # xs)"
    using ih(4) by simp
  moreover have "printed ([Align x ref, StdoutWrite line, StdoutFlush] @ evs) = []"
    using ih(5) by simp
  ultimately show ?case using run ih(2) by force
qed

lemma HO_align_loop:
  assumes "tot \<noteq> 0"
  shows "\<exists>s' evs. for_each (enumerate k xs) (\<lambda>(i, obj).
                     block
                       [try_except (pm_align w obj ref) (\<lambda>e.
                          emit (Print (nl @ warning_sign @ '' Alignment failed for '' @ obj
                                       @ '': '' @ str_error e))),
                        progress_bar_single w (int i) tot st ''Aligning proteins'']) s
                   = (Inr (), s')
          \<and> repo s' = repo s \<and> trace s' = trace s @ evs
          \<and> align_calls evs = map (\<lambda>obj. (obj, ref)) xs
          \<and> printed evs = alignment_warnings w ref xs"
proof (induction xs arbitrary: k s)
  case Nil
  show ?case by (simp add: pret_def alignment_warnings_def)
next
  case (Cons x xs)
  let ?warn = "case env_align w x ref of None \<Rightarrow> []
               | Some msg \<Rightarrow> [Print (nl @ warning_sign @ '' Alignment failed for '' @ x
                                       @ '': '' @ msg)]"
  let ?s1 = "s\<lparr>trace := trace s @ Align x ref # ?warn\<rparr>"
  have a: "try_except (pm_align w x ref) (\<lambda>e.
                          emit (Print (nl @ warning_sign @ '' Alignment failed for '' @ x
                                       @ '': '' @ str_error e))) s = (Inr (), ?s1)"
    by (simp add: try_except_def pm_align_def emit_def Let_def split: option.splits)
  from progress_bar_single_returns [OF assms, of w "int k" st "''Aligning proteins''" ?s1]
  obtain line
    where b: "progress_bar_single w (int k) tot st ''Aligning proteins'' ?s1 =
      (Inr (), ?s1\<lparr>reads := Suc (reads ?s1), trace := trace ?s1 @ [StdoutWrite line, StdoutFlush]\<rparr>)"
    by blast
  let ?s2 = "?s1\<lparr>reads := Suc (reads ?s1), trace := trace ?s1 @ [StdoutWrite line, StdoutFlush]\<rparr>"
  from Cons.IH [of "Suc k" ?s2] obtain s' evs where
    ih: "for_each (enumerate (Suc k) xs) (\<lambda>(i, obj).
                     block
                       [try_except (pm_align w obj ref) (\<lambda>e.
                          emit (Print (nl @ warning_sign @ '' Alignment failed for '' @ obj
                                       @ '': '' @ str_error e))),
                        progress_bar_single w (int i) tot st ''Aligning proteins'']) ?s2
                   = (Inr (), s')"
      "repo s' = repo ?s2" "trace s' = trace ?s2 @ evs"
      "align_calls evs = map (\<lambda>obj. (obj, ref)) xs"
      "printed evs = alignment_warnings w ref xs"
    by blast
  have run: "for_each (enumerate k (x # xs)) (\<lambda>(i, obj).
                     block
                       [try_except (pm_align w obj ref) (\<lambda>e.
                          emit (Print (nl @ warning_sign @ '' Alignment failed for '' @ obj
                                       @ '': '' @ str_error e))),
                        progress_bar_single w (int i) tot st ''Aligning proteins'']) s
                   = (Inr (), s')"
    using a b ih(1) by (simp add: pbind_def pret_def)
  let ?evs = "(Align x ref # ?warn) @ [StdoutWrite line, StdoutFlush] @ evs"
  have "trace s' = trace s @ ?evs"
    using ih(3) by simp
  moreover have "align_calls ?evs = map (\<lambda>obj. (obj, ref)) (x # xs)"
    using ih(4) by (simp split: option.splits)
  moreover have "printed ?evs = alignment_warnings w ref (x # xs)"
    using ih(5) by (simp add: alignment_warnings_def split: option.splits)
  ultimately show ?case using run ih(2) by force
qed

lemma protein_objects_run:
  "protein_objects w objs s =
     (Inr (with_protein w objs),
      s\<lparr>trace := trace s @ map (\<lambda>obj. CountAtoms (obj @ '' and polymer.protein'')) objs\<rparr>)"
  by (induction objs arbitrary: s)
     (simp_all add: with_protein_def pret_def pbind_def count_atoms_def)

lemma plain_align_loop_ok:
  assumes "\<forall>obj \<in> set xs. env_align w obj ref = None"
  shows "for_each xs (\<lambda>obj. pm_align w obj ref) s =
           (Inr (), s\<lparr>trace := trace s @ map (\<lambda>obj. Align obj ref) xs\<rparr>)"
  using assms
  by (induction xs arbitrary: s) (simp_all add: pret_def pbind_def pm_align_def)

lemma plain_align_loop_fails:
  assumes "\<forall>obj \<in> set ok. env_align w obj ref = None" and "env_align w x ref = Some msg"
  shows "for_each (ok @ x # later) (\<lambda>obj. pm_align w obj ref) s =
           (Inl (CollaboratorError msg),
            s\<lparr>trace := trace s @ map (\<lambda>obj. Align obj ref) (ok @ [x])\<rparr>)"
  using assms
  by (induction ok arbitrary: s) (simp_all add: pret_def pbind_def pm_align_def)

lemma count_events_silent:
  "align_calls (map (\<lambda>obj. CountAtoms (f obj)) xs) = []"
  "printed (map (\<lambda>obj. CountAtoms (f obj)) xs) = []"
  by (induction xs) simp_all

lemma HO_align_proteins_run:
  assumes "with_protein w (repo s) = ref # rest" and "rest \<noteq> []"
  shows "\<exists>s' evs. HO_align_proteins c w s = (Inr (), s') \<and> repo s' = repo s
           \<and> trace s' = trace s @ evs
           \<and> align_calls evs = map (\<lambda>obj. (obj, ref)) rest
           \<and> printed evs = ''Aligning protein structures only...''
                # alignment_warnings w ref rest
                @ [nl @ check_mark @ '' Protein alignment completed'' @ nl]"
proof -
  let ?counts = "map (\<lambda>obj. CountAtoms (obj @ '' and polymer.protein'')) (repo s)"
  let ?s1 = "s\<lparr>trace := trace s @ Print ''Aligning protein structures only...''
                     # GetObjectList None (repo s) # ?counts, reads := Suc (reads s)\<rparr>"
  from assms have len: "\<not> length (with_protein w (repo s)) < 2" "int (length (with_protein w (repo s))) - 1 \<noteq> 0"
    by (cases rest; simp)+
  from HO_align_loop [OF len(2), of "Suc 0" rest w ref "env_clock w (reads s)" ?s1]
  obtain s2 evs where
    loop: "for_each (enumerate (Suc 0) rest) (\<lambda>(i, obj).
                     block
                       [try_except (pm_align w obj ref) (\<lambda>e.
                          emit (Print (nl @ warning_sign @ '' Alignment failed for '' @ obj
                                       @ '': '' @ str_error e))),
                        progress_bar_single w (int i) (int (length (with_protein w (repo s))) - 1)
                          (env_clock w (reads s)) ''Aligning proteins'']) ?s1
                   = (Inr (), s2)"
      "repo s2 = repo ?s1" "trace s2 = trace ?s1 @ evs"
      "align_calls evs = map (\<lambda>obj. (obj, ref)) rest"
      "printed evs = alignment_warnings w ref rest"
    by blast
  let ?s3 = "s2\<lparr>trace := trace s2 @ [Print (nl @ check_mark @ '' Protein alignment completed'' @ nl)]\<rparr>"
  have run: "HO_align_proteins c w s = (Inr (), ?s3)"
    using len(1) loop(1) assms(1)
    by (simp add: HO_align_proteins_def pbind_def pret_def emit_def get_object_list_def
        protein_objects_run Let_def praise_def)
  let ?evs = "(Print ''Aligning protein structures only...'' # GetObjectList None (repo s)
               # ?counts) @ evs @ [Print (nl @ check_mark @ '' Protein alignment completed'' @ nl)]"
  have counts: "align_calls ?counts = []" "printed ?counts = []"
    by (simp_all add: count_events_silent)
  have "trace ?s3 = trace s @ ?evs" using loop(3) by simp
  moreover have "align_calls ?evs = map (\<lambda>obj. (obj, ref)) rest"
    using loop(4) counts by simp
  moreover have "printed ?evs = ''Aligning protein structures only...''
                # alignment_warnings w ref rest
                @ [nl @ check_mark @ '' Protein alignment completed'' @ nl]"
    using loop(5) counts by simp
  moreover have "repo ?s3 = repo s" using loop(2) by simp
  ultimately show ?thesis using run by blast
qed

lemma all_global_alignment_run:
  assumes "ALIGN_STRUCTURES c" and "repo s = ref # rest"
  shows "\<exists>s' evs. all_global_alignment c w s = (Inr (), s') \<and> repo s' = repo s
           \<and> trace s' = trace s @ evs
           \<and> align_calls evs = map (\<lambda>obj. (obj, ref)) rest
           \<and> printed evs = [''Aligning structures...'',
                             nl @ check_mark @ '' Alignment completed'' @ nl]"
proof -
  let ?s1 = "s\<lparr>reads := Suc (reads s),
                trace := trace s @ [Print ''Aligning structures...'',
                                    GetObjectList None (repo s)]\<rparr>"
  let ?body = "\<lambda>(i, obj).
                   block [try_except (pm_align w obj ref) (\<lambda>e. pret ()),
                          progress_bar w (int i) (int (length (repo s)) - 1)
                            (env_clock w (reads s)) ''Aligning'']"
  have "\<exists>s2 evs. for_each (enumerate (Suc 0) rest) ?body ?s1 = (Inr (), s2)
          \<and> repo s2 = repo ?s1 \<and> trace s2 = trace ?s1 @ evs
          \<and> align_calls evs = map (\<lambda>obj. (obj, ref)) rest \<and> printed evs = []"
  proof (cases "rest = []")
    case True
    then show ?thesis by (simp add: pret_def)
  next
    case False
    with assms(2) have "int (length (repo s)) - 1 \<noteq> 0" by simp
    from all_align_loop [OF this] show ?thesis by blast
  qed
  then obtain s2 evs where
    loop: "for_each (enumerate (Suc 0) rest) ?body ?s1 = (Inr (), s2)"
      "repo s2 = repo ?s1" "trace s2 = trace ?s1 @ evs"
      "align_calls evs = map (\<lambda>obj. (obj, ref)) rest" "printed evs = []"
    by blast
  let ?s3 = "s2\<lparr>trace := trace s2 @ [Print (nl @ check_mark @ '' Alignment completed'' @ nl)]\<rparr>"
  have run: "all_global_alignment c w s = (Inr (), ?s3)"
    using assms loop(1)
    by (simp add: all_global_alignment_def pbind_def pret_def emit_def get_object_list_def
        Let_def)
  let ?evs = "[Print ''Aligning structures...'', GetObjectList None (repo s)] @ evs
               @ [Print (nl @ check_mark @ '' Alignment completed'' @ nl)]"
  have "trace ?s3 = trace s @ ?evs" using loop(3) by simp
  moreover have "align_calls ?evs = map (\<lambda>obj. (obj, ref)) rest"
    using loop(4) by simp
  moreover have "printed ?evs = [''Aligning structures...'',
                             nl @ check_mark @ '' Alignment completed'' @ nl]"
    using loop(5) by simp
  moreover have "repo ?s3 = repo s" using loop(2) by simp
  ultimately show ?thesis using run by blast
qed

text \<open>
  What the alignment stages do when a call raises. In \<^verbatim>\<open>hca_HO.py\<close> (at least two protein
  objects) the stage returns normally whatever the alignment calls raise: every object after
  the reference gets its call, in order, a warning is printed for each call that raised, and
  the session keeps all its objects. In \<^verbatim>\<open>hca_all_analysis.py\<close> the stage also returns normally
  with one call per object and the session unchanged, and prints its two fixed lines only. In
  \<^verbatim>\<open>hca_jaccard.py\<close> and \<^verbatim>\<open>hca_overlap.py\<close> the first alignment call that raises ends the
  stage with that exception, and the objects after it get no call.
\<close>

lemma alignment_stage_runs:
  "(with_protein w (repo s) = ref # rest \<and> rest \<noteq> [] \<longrightarrow>
      (\<exists>s' evs. HO_align_proteins c w s = (Inr (), s') \<and> repo s' = repo s
         \<and> trace s' = trace s @ evs
         \<and> align_calls evs = map (\<lambda>obj. (obj, ref)) rest
         \<and> printed evs = ''Aligning protein structures only...''
              # alignment_warnings w ref rest
              @ [nl @ check_mark @ '' Protein alignment completed'' @ nl]))
   \<and> (ALIGN_STRUCTURES c \<and> repo s = ref # rest \<longrightarrow>
      (\<exists>s' evs. all_global_alignment c w s = (Inr (), s') \<and> repo s' = repo s
         \<and> trace s' = trace s @ evs
         \<and> align_calls evs = map (\<lambda>obj. (obj, ref)) rest
         \<and> printed evs = [''Aligning structures...'',
                           nl @ check_mark @ '' Alignment completed'' @ nl]))
   \<and> (repo s = ref # ok @ x # later \<and> (\<forall>obj \<in> set ok. env_align w obj ref = None)
        \<and> env_align w x ref = Some msg \<longrightarrow>
      plain_alignment w s =
        (Inl (CollaboratorError msg),
         s\<lparr>trace := trace s @ GetObjectList None (repo s)
                      # map (\<lambda>obj. Align obj ref) (ok @ [x])\<rparr>))"
proof (intro conjI impI)
  assume "with_protein w (repo s) = ref # rest \<and> rest \<noteq> []"
  then show "\<exists>s' evs. HO_align_proteins c w s = (Inr (), s') \<and> repo s' = repo s
         \<and> trace s' = trace s @ evs
         \<and> align_calls evs = map (\<lambda>obj. (obj, ref)) rest
         \<and> printed evs = ''Aligning protein structures only...''
              # alignment_warnings w ref rest
              @ [nl @ check_mark @ '' Protein alignment completed'' @ nl]"
    using HO_align_proteins_run by blast
next
  assume "ALIGN_STRUCTURES c \<and> repo s = ref # rest"
  then show "\<exists>s' evs. all_global_alignment c w s = (Inr (), s') \<and> repo s' = repo s
         \<and> trace s' = trace s @ evs
         \<and> align_calls evs = map (\<lambda>obj. (obj, ref)) rest
         \<and> printed evs = [''Aligning structures...'',
                           nl @ check_mark @ '' Alignment completed'' @ nl]"
    using all_global_alignment_run by blast
next
  assume a: "repo s = ref # ok @ x # later \<and> (\<forall>obj \<in> set ok. env_align w obj ref = None)
        \<and> env_align w x ref = Some msg"
  then have "for_each (ok @ x # later) (\<lambda>obj. pm_align w obj ref)
               (s\<lparr>trace := trace s @ [GetObjectList None (repo s)]\<rparr>) =
           (Inl (CollaboratorError msg),
            s\<lparr>trace := trace s @ [GetObjectList None (repo s)]
                         @ map (\<lambda>obj. Align obj ref) (ok @ [x])\<rparr>)"
    using plain_align_loop_fails [of ok w ref x msg later
        "s\<lparr>trace := trace s @ [GetObjectList None (repo s)]\<rparr>"] by simp
  with a show "plain_alignment w s =
        (Inl (CollaboratorError msg),
         s\<lparr>trace := trace s @ GetObjectList None (repo s)
                      # map (\<lambda>obj. Align obj ref) (ok @ [x])\<rparr>)"
    by (simp add: plain_alignment_def pbind_def get_object_list_def Let_def)
qed

lemma alignment_stage_runs_example:
  "fst (HO_align_proteins config0 world_align_fails three_loaded) = Inr ()
   \<and> printed (trace (snd (HO_align_proteins config0 world_align_fails three_loaded))) =
       [''Aligning protein structures only...'',
        nl @ warning_sign @ '' Alignment failed for b.pdb: align failed'',
        nl @ check_mark @ '' Protein alignment completed'' @ nl]
   \<and> align_calls (trace (snd (HO_align_proteins config0 world_align_fails three_loaded))) =
       [(''b.pdb'', ''a.pdb''), (''c.pdb'', ''a.pdb'')]
   \<and> fst (all_global_alignment config0 world_align_fails three_loaded) = Inr ()
   \<and> printed (trace (snd (all_global_alignment config0 world_align_fails three_loaded))) =
       [''Aligning structures...'', nl @ check_mark @ '' Alignment completed'' @ nl]
   \<and> align_calls (trace (snd (all_global_alignment config0 world_align_fails three_loaded))) =
       [(''b.pdb'', ''a.pdb''), (''c.pdb'', ''a.pdb'')]
   \<and> plain_alignment world_align_fails three_loaded =
       (Inl (CollaboratorError ''align failed''),
        three_loaded\<lparr>trace := [GetObjectList None [''a.pdb'', ''b.pdb'', ''c.pdb''],
                               Align ''b.pdb'' ''a.pdb'']\<rparr>)"
proof -
  note t = alignment_stage_runs [of world_align_fails three_loaded "''a.pdb''"
      "[''b.pdb'', ''c.pdb'']" config0 "[]" "''b.pdb''" "[''c.pdb'']" "''align failed''"]
  have h1: "with_protein world_align_fails (repo three_loaded) = ''a.pdb'' # [''b.pdb'', ''c.pdb'']
            \<and> [''b.pdb'', ''c.pdb''] \<noteq> []"
    by (simp add: with_protein_def world_align_fails_def world_three_def world0_def
        three_loaded_def init_state_def)
  have h2: "ALIGN_STRUCTURES config0 \<and> repo three_loaded = ''a.pdb'' # [''b.pdb'', ''c.pdb'']"
    by (simp add: config0_def three_loaded_def init_state_def)
  have h3: "repo three_loaded = ''a.pdb'' # [] @ ''b.pdb'' # [''c.pdb'']
        \<and> (\<forall>obj \<in> set []. env_align world_align_fails obj ''a.pdb'' = None)
        \<and> env_align world_align_fails ''b.pdb'' ''a.pdb'' = Some ''align failed''"
    by (simp add: world_align_fails_def world_three_def world0_def three_loaded_def
        init_state_def)
  have warn: "alignment_warnings world_align_fails ''a.pdb'' [''b.pdb'', ''c.pdb''] =
                [nl @ warning_sign @ '' Alignment failed for b.pdb: align failed'']"
    by (simp add: alignment_warnings_def world_align_fails_def world_three_def world0_def)
  have t0: "trace three_loaded = []" by (simp add: three_loaded_def init_state_def)
  from t h1 obtain s1 evs1 where
    a: "HO_align_proteins config0 world_align_fails three_loaded = (Inr (), s1)"
      "trace s1 = trace three_loaded @ evs1"
      "align_calls evs1 = map (\<lambda>obj. (obj, ''a.pdb'')) [''b.pdb'', ''c.pdb'']"
      "printed evs1 = ''Aligning protein structures only...''
              # alignment_warnings world_align_fails ''a.pdb'' [''b.pdb'', ''c.pdb'']
              @ [nl @ check_mark @ '' Protein alignment completed'' @ nl]"
    by blast
  from t h2 obtain s2 evs2 where
    b: "all_global_alignment config0 world_align_fails three_loaded = (Inr (), s2)"
      "trace s2 = trace three_loaded @ evs2"
      "align_calls evs2 = map (\<lambda>obj. (obj, ''a.pdb'')) [''b.pdb'', ''c.pdb'']"
      "printed evs2 = [''Aligning structures...'',
                           nl @ check_mark @ '' Alignment completed'' @ nl]"
    by blast
  from t h3 have c: "plain_alignment world_align_fails three_loaded =
        (Inl (CollaboratorError ''align failed''),
         three_loaded\<lparr>trace := trace three_loaded @ GetObjectList None (repo three_loaded)
                      # map (\<lambda>obj. Align obj ''a.pdb'') ([] @ [''b.pdb''])\<rparr>)"
    by blast
  have c': "plain_alignment world_align_fails three_loaded =
       (Inl (CollaboratorError ''align failed''),
        three_loaded\<lparr>trace := [GetObjectList None [''a.pdb'', ''b.pdb'', ''c.pdb''],
                               Align ''b.pdb'' ''a.pdb'']\<rparr>)"
    using c by (simp add: three_loaded_def init_state_def)
  from a b c' warn t0 show ?thesis by simp
qed

text \<open>
  C2: the claim fails on \<^verbatim>\<open>hca_jaccard.py\<close>, \<^verbatim>\<open>hca_overlap.py\<close> and \<^verbatim>\<open>hca_all_analysis.py\<close>.
  With three files, of which the second object's alignment raises, \<^verbatim>\<open>hca_jaccard.py\<close> and
  \<^verbatim>\<open>hca_overlap.py\<close> end in that exception: the third object gets no alignment call and no
  selection or clustering follows. \<^verbatim>\<open>hca_all_analysis.py\<close> continues, but its whole log is the
  log of the run in which no alignment fails: the failure is not recorded. \<^verbatim>\<open>hca_HO.py\<close>, on
  the same input, prints its warning and goes on to the clustering.
\<close>

theorem alignment_failure_not_tolerated:
  "fst (hca_jaccard config0 world_align_fails init_state) =
     Inl (CollaboratorError ''align failed'')
   \<and> align_calls (trace (snd (hca_jaccard config0 world_align_fails init_state))) =
       [(''b.pdb'', ''a.pdb'')]
   \<and> filter is_selection (trace (snd (hca_jaccard config0 world_align_fails init_state))) = []
   \<and> filter is_clustering (trace (snd (hca_jaccard config0 world_align_fails init_state))) = []
   \<and> fst (hca_overlap config0 world_align_fails init_state) =
     Inl (CollaboratorError ''align failed'')
   \<and> align_calls (trace (snd (hca_overlap config0 world_align_fails init_state))) =
       [(''b.pdb'', ''a.pdb'')]
   \<and> fst (hca_all_analysis config0 world_align_fails init_state) = Inr ()
   \<and> trace (snd (hca_all_analysis config0 world_align_fails init_state)) =
       trace (snd (hca_all_analysis config0 world_three init_state))
   \<and> fst (hca_HO config0 world_align_fails init_state) = Inr ()
   \<and> align_calls (trace (snd (hca_HO config0 world_align_fails init_state))) =
       [(''b.pdb'', ''a.pdb''), (''c.pdb'', ''a.pdb'')]
   \<and> nl @ warning_sign @ '' Alignment failed for b.pdb: align failed''
       \<in> set (printed (trace (snd (hca_HO config0 world_align_fails init_state))))"
  by (simp add: all_defs single_defs run_defs sample_defs world_align_fails_def world_three_def)

lemma HO_align_proteins_too_few:
  assumes "length (with_protein w (repo s)) < 2"
  shows "HO_align_proteins c w s =
           (Inl (RuntimeError ''Not enough protein structures for alignment.''),
            s\<lparr>trace := trace s @ Print ''Aligning protein structures only...''
                         # GetObjectList None (repo s)
                         # map (\<lambda>obj. CountAtoms (obj @ '' and polymer.protein'')) (repo s)\<rparr>)"
  using assms
  by (simp add: HO_align_proteins_def pbind_def emit_def get_object_list_def
      protein_objects_run Let_def praise_def)

text \<open>
  C3: the claim fails on \<^verbatim>\<open>hca_all_analysis.py\<close>, \<^verbatim>\<open>hca_overlap.py\<close> and \<^verbatim>\<open>hca_jaccard.py\<close>,
  which do not count the structures before aligning. With one file, and so one object in the
  session, their alignment stage makes no alignment call and completes (the completion lines
  are printed); the run ends later, in the error of the hotspot validation. \<^verbatim>\<open>hca_HO.py\<close>, on
  the same input, raises its \<^verbatim>\<open>RuntimeError\<close> for too few protein structures, with no
  alignment call made.
\<close>

theorem single_structure_alignment_passes:
  "repo (snd (hca_all_analysis config0 world_one_object init_state)) = [''a.pdb'']
   \<and> fst (hca_all_analysis config0 world_one_object init_state) =
       Inl (RuntimeError ''Only 1 hotspots found with S0 > 20. At least two are required for HCA.'')
   \<and> align_calls (trace (snd (hca_all_analysis config0 world_one_object init_state))) = []
   \<and> printed (trace (snd (hca_all_analysis config0 world_one_object init_state))) =
       [nl @ ''=== HOTSPOT ANALYSIS PIPELINE STARTED ==='' @ nl,
        ''Found 1 FTMap structures'' @ nl,
        nl @ check_mark @ '' FTMap structures loaded'' @ nl,
        ''Aligning structures...'',
        nl @ check_mark @ '' Alignment completed'' @ nl,
        ''Using hotspot selection:'' @ nl @ ''  ((*.B* *.D*) AND p.S0>20)'' @ nl]
   \<and> fst (hca_overlap config0 world_one_object init_state) =
       Inl (RuntimeError
             ''Only 1 hotspots found with S0 > 20. At least two are required for overlap analysis.'')
   \<and> align_calls (trace (snd (hca_overlap config0 world_one_object init_state))) = []
   \<and> printed (trace (snd (hca_overlap config0 world_one_object init_state))) =
       [nl @ ''=== HCA: Residue Overlap Similarity ==='' @ nl,
        nl @ check_mark @ '' FTMap structures loaded'' @ nl,
        check_mark @ '' Structures aligned'' @ nl]
   \<and> fst (hca_jaccard config0 world_one_object init_state) =
       Inl (RuntimeError ''Not enough hotspots for Jaccard analysis'')
   \<and> align_calls (trace (snd (hca_jaccard config0 world_one_object init_state))) = []
   \<and> fst (hca_HO config0 world_one_object init_state) =
       Inl (RuntimeError ''Not enough protein structures for alignment.'')
   \<and> align_calls (trace (snd (hca_HO config0 world_one_object init_state))) = []"
  by (simp add: all_defs single_defs run_defs sample_defs world_one_object_def)



lemma closes_append [simp]: "closes (xs @ ys) = closes xs + closes ys"
  by (simp add: closes_def)

lemma closes_simps [simp]:
  "closes [] = 0" "closes (Close # es) = Suc (closes es)"
  "e \<noteq> Close \<Longrightarrow> closes (e # es) = closes es"
  by (simp_all add: closes_def)



lemma saved_append [simp]: "saved (xs @ ys) = saved xs @ saved ys"
  by (induction xs rule: saved.induct) simp_all

lemma timed_append [simp]: "timed (xs @ ys) = timed xs @ timed ys"
  by (induction xs rule: timed.induct) simp_all

lemma setup_event: "is_setup e \<Longrightarrow> \<not> is_clustering e \<and> e \<noteq> Close"
  by (cases e) auto

lemma setup_count_open: "list_all is_setup pre \<Longrightarrow> count_open n (pre @ xs) = count_open n xs"
  by (induction pre arbitrary: n) (auto dest: setup_event)

lemma setup_starts_clean:
  "list_all is_setup pre \<Longrightarrow> starts_clean n (pre @ xs) = starts_clean n xs"
  by (induction pre arbitrary: n) (auto dest: setup_event)

lemma setup_silent:
  "list_all is_setup pre \<Longrightarrow> closes pre = 0 \<and> saved pre = [] \<and> timed pre = []"
  by (induction pre rule: saved.induct) simp_all







lemma tidy_setup:
  assumes "emits is_setup m"
  shows "tidy m"
  unfolding tidy_def
proof (intro allI impI)
  fix s r s'
  assume "m s = (r, s')"
  from emitsD [OF assms this] obtain evs where
    e: "trace s' = trace s @ evs" "list_all is_setup evs"
    by blast
  from setup_starts_clean [OF e(2), of 0 "[]"] setup_count_open [OF e(2), of 0 "[]"] e(1)
  show "\<exists>evs. trace s' = trace s @ evs \<and> starts_clean 0 evs
               \<and> (\<forall>a. r = Inr a \<longrightarrow> count_open 0 evs = 0)"
    by auto
qed









end
